theory Spec2Isabelle
  imports Complex_Main "HOL-Library.Sublist" "HOL-Library.Log_Nat"
begin

text \<open>
  The core of the MISP DDoS automation frontend: the Compliance Compiler of
  \<^verbatim>\<open>mispApi.ts\<close> (\<open>mapSeverityToThreatLevel\<close>, \<open>buildAttributes\<close>, \<open>buildTags\<close>), the
  Classification Filter and the Metrics Aggregator of \<^verbatim>\<open>fileProcessing.ts\<close>
  (\<open>filterEventsByTLP\<close>, \<open>calculateMetrics\<close>, \<open>calculateSecurityPosture\<close>), its
  Structural Validator (\<open>validateCSVContent\<close>) and the Heuristic Quality Assessor of the
  AI-enhanced upload service (\<open>preValidateFileWithAI\<close>). Each function is a HOL function of
  the same name; what the platform does (strings, numbers, property lookup, regular
  expressions) is written out first.
\<close>

section \<open>JavaScript strings\<close>

text \<open>
  The services are TypeScript. A string is a sequence of UTF-16 code units; it is modelled
  as a \<^typ>\<open>string\<close> whose characters are the code units U+0000 to U+00FF (Latin-1), and
  its length is the number of code units. The string methods the services call are
  written out here.

  \<^verbatim>\<open>toLowerCase\<close> maps the 26 ASCII capitals and the 30 Latin-1 capitals (U+00C0 to
  U+00DE without the multiplication sign U+00D7) to the letters 32 places on, and leaves
  every other character of the range alone.
\<close>

definition upper_letters :: string where
  "upper_letters = ''ABCDEFGHIJKLMNOPQRSTUVWXYZ'' @
     [CHR 0xC0, CHR 0xC1, CHR 0xC2, CHR 0xC3, CHR 0xC4, CHR 0xC5, CHR 0xC6, CHR 0xC7,
      CHR 0xC8, CHR 0xC9, CHR 0xCA, CHR 0xCB, CHR 0xCC, CHR 0xCD, CHR 0xCE, CHR 0xCF,
      CHR 0xD0, CHR 0xD1, CHR 0xD2, CHR 0xD3, CHR 0xD4, CHR 0xD5, CHR 0xD6, CHR 0xD8,
      CHR 0xD9, CHR 0xDA, CHR 0xDB, CHR 0xDC, CHR 0xDD, CHR 0xDE]"

definition lower_letters :: string where
  "lower_letters = ''abcdefghijklmnopqrstuvwxyz'' @
     [CHR 0xE0, CHR 0xE1, CHR 0xE2, CHR 0xE3, CHR 0xE4, CHR 0xE5, CHR 0xE6, CHR 0xE7,
      CHR 0xE8, CHR 0xE9, CHR 0xEA, CHR 0xEB, CHR 0xEC, CHR 0xED, CHR 0xEE, CHR 0xEF,
      CHR 0xF0, CHR 0xF1, CHR 0xF2, CHR 0xF3, CHR 0xF4, CHR 0xF5, CHR 0xF6, CHR 0xF8,
      CHR 0xF9, CHR 0xFA, CHR 0xFB, CHR 0xFC, CHR 0xFD, CHR 0xFE]"

definition lower_char :: "char \<Rightarrow> char" where
  "lower_char c = (case map_of (zip upper_letters lower_letters) c of Some d \<Rightarrow> d | None \<Rightarrow> c)"

definition toLowerCase :: "string \<Rightarrow> string" where
  "toLowerCase s = map lower_char s"

text \<open>
  \<^verbatim>\<open>toUpperCase\<close> maps the small letters back, and the sharp s (U+00DF) to two
  capitals. The capital forms of the micro sign (U+00B5) and of y with diaeresis (U+00FF)
  lie outside the range: the two characters are left as they are here.
\<close>

definition upper_char :: "char \<Rightarrow> string" where
  "upper_char c =
     (case map_of (zip lower_letters upper_letters) c of
        Some d \<Rightarrow> [d]
      | None \<Rightarrow> if c = CHR 0xDF then ''SS'' else [c])"

definition toUpperCase :: "string \<Rightarrow> string" where
  "toUpperCase s = concat (map upper_char s)"

text \<open>\<^verbatim>\<open>s.includes(sub)\<close>: \<open>sub\<close> occurs in \<open>s\<close> as a contiguous substring.\<close>

fun js_includes :: "string \<Rightarrow> string \<Rightarrow> bool" where
  "js_includes [] sub = (sub = [])"
| "js_includes (c # cs) sub = (prefix sub (c # cs) \<or> js_includes cs sub)"

text \<open>\<^verbatim>\<open>s.endsWith(suf)\<close>.\<close>

definition js_endsWith :: "string \<Rightarrow> string \<Rightarrow> bool" where
  "js_endsWith s suf = suffix suf s"

text \<open>
  \<^verbatim>\<open>s.split(sep)\<close> for a one-character separator: the pieces between the separators,
  always at least one piece (\<^verbatim>\<open>''.split(',')\<close> is \<^verbatim>\<open>['']\<close>).
\<close>

fun js_split :: "char \<Rightarrow> string \<Rightarrow> string list" where
  "js_split sep [] = [[]]"
| "js_split sep (c # cs) =
     (if c = sep then [] # js_split sep cs
      else (case js_split sep cs of [] \<Rightarrow> [[c]] | p # ps \<Rightarrow> (c # p) # ps))"

text \<open>
  \<^verbatim>\<open>s.trim()\<close> removes white space and line terminators from both ends; in the range
  these are tab, line feed, vertical tab, form feed, carriage return, space and the
  no-break space U+00A0.
\<close>

definition js_whitespace :: "char \<Rightarrow> bool" where
  "js_whitespace c =
     (c \<in> set [CHR 0x09, CHR 0x0A, CHR 0x0B, CHR 0x0C, CHR 0x0D, CHR 0x20, CHR 0xA0])"

definition js_trim :: "string \<Rightarrow> string" where
  "js_trim s = rev (dropWhile js_whitespace (rev (dropWhile js_whitespace s)))"

text \<open>\<^verbatim>\<open>xs.join(sep)\<close>.\<close>

fun js_join :: "string \<Rightarrow> string list \<Rightarrow> string" where
  "js_join sep [] = []"
| "js_join sep [x] = x"
| "js_join sep (x # y # ys) = x @ sep @ js_join sep (y # ys)"

text \<open>
  \<^verbatim>\<open>s.replace(pat, '')\<close> for a string pattern: the first occurrence of \<open>pat\<close> is
  removed, the rest of \<open>s\<close> is kept.
\<close>

fun js_remove_first :: "string \<Rightarrow> string \<Rightarrow> string" where
  "js_remove_first pat [] = []"
| "js_remove_first pat (c # cs) =
     (if prefix pat (c # cs) then drop (length pat) (c # cs) else c # js_remove_first pat cs)"


section \<open>Events read from the sharing platform\<close>

text \<open>
  The interface \<^verbatim>\<open>MISPEvent\<close> of the frontend's types. \<^verbatim>\<open>threat_level\<close> is declared
  as the union \<^verbatim>\<open>'1' | '2' | '3' | '4'\<close>. Only the fields that the modelled
  functions read are kept (\<^verbatim>\<open>id\<close> is \<open>event_id\<close> here).
\<close>

datatype threat_level_id = TL1 | TL2 | TL3 | TL4

record misp_tag =
  name :: string
  colour :: string

record MISPEvent =
  event_id :: string
  info :: string
  date :: string
  threat_level :: threat_level_id
  published :: bool
  tags :: "misp_tag list"


section \<open>Classification Filter\<close>

text \<open>
  \<^verbatim>\<open>EventMetricsService.filterEventsByTLP(events, excludeTlpRed = true)\<close> in
  \<^verbatim>\<open>fileProcessing.ts\<close>. The optional argument is \<open>None\<close> when the caller leaves it out.
\<close>

definition filterEventsByTLP :: "MISPEvent list \<Rightarrow> bool option \<Rightarrow> MISPEvent list" where
  "filterEventsByTLP events excludeTlpRed_arg =
     (let excludeTlpRed = (case excludeTlpRed_arg of None \<Rightarrow> True | Some b \<Rightarrow> b) in
      if \<not> excludeTlpRed then events
      else filter (\<lambda>event.
             \<not> list_ex (\<lambda>tag. js_includes (toLowerCase (name tag)) ''tlp:red'') (tags event))
           events)"

text \<open>\<^verbatim>\<open>MISPApiService.isTlpRedEvent(event)\<close> in \<^verbatim>\<open>mispApi.ts\<close>.\<close>

definition isTlpRedEvent :: "MISPEvent \<Rightarrow> bool" where
  "isTlpRedEvent event =
     list_ex (\<lambda>tag. js_includes (toLowerCase (name tag)) ''tlp:red''
                  \<or> js_includes (toLowerCase (name tag)) ''tlp-red'')
       (tags event)"

text \<open>
  The filtering step of \<^verbatim>\<open>MISPApiService.getEvents\<close> and
  \<^verbatim>\<open>getEventsWithFilter\<close>, applied to the events already fetched and transformed.
\<close>

definition getEvents_filter :: "MISPEvent list \<Rightarrow> bool option \<Rightarrow> MISPEvent list" where
  "getEvents_filter events excludeTlpRed_arg =
     (let excludeTlpRed = (case excludeTlpRed_arg of None \<Rightarrow> True | Some b \<Rightarrow> b) in
      if excludeTlpRed then filter (\<lambda>event. \<not> isTlpRedEvent event) events else events)"

text \<open>
  The specification's wording of the test: a tag name contains the marker as a substring,
  letter case ignored. Some stretch of the name equals the marker once both are lowered.
\<close>

definition contains_ignoring_case :: "string \<Rightarrow> string \<Rightarrow> bool" where
  "contains_ignoring_case s marker =
     (\<exists>pre mid suf. s = pre @ mid @ suf \<and> toLowerCase mid = toLowerCase marker)"

definition carries_marker :: "string \<Rightarrow> MISPEvent \<Rightarrow> bool" where
  "carries_marker marker event =
     (\<exists>tag \<in> set (tags event). contains_ignoring_case (name tag) marker)"


section \<open>Compliance Compiler\<close>

text \<open>
  The interface \<^verbatim>\<open>DDoSEvent\<close>. \<^verbatim>\<open>attack_type\<close> and \<^verbatim>\<open>severity\<close> are declared as unions
  of string literals; the compiler reads them as strings (a lookup in an object literal
  and two \<^verbatim>\<open>switch\<close> statements with no default), so they are strings here and
  every value can be asked about.
\<close>

record DDoSEvent =
  title :: string
  description :: string
  attacker_ips :: "string list"
  victim_ips :: "string list"
  attack_ports :: "string list"
  attack_type :: string
  severity :: string

text \<open>
  What a property read on an object literal can return. The literal's own properties hold
  strings. A key the literal does not own is looked up in \<^verbatim>\<open>Object.prototype\<close>, whose
  properties are built-in functions (and, for \<^verbatim>\<open>__proto__\<close>, the prototype object):
  \<open>JInherited key\<close> stands for that value, which is truthy and is not a string.
\<close>

datatype js_value = JString string | JInherited string

definition Object_prototype_properties :: "string list" where
  "Object_prototype_properties =
     [''constructor'', ''hasOwnProperty'', ''isPrototypeOf'', ''propertyIsEnumerable'',
      ''toLocaleString'', ''toString'', ''valueOf'', ''__proto__'',
      ''__defineGetter__'', ''__defineSetter__'', ''__lookupGetter__'', ''__lookupSetter__'']"

text \<open>\<^verbatim>\<open>obj[key]\<close> on an object literal: \<open>None\<close> is \<^verbatim>\<open>undefined\<close>.\<close>

definition js_get :: "(string \<times> string) list \<Rightarrow> string \<Rightarrow> js_value option" where
  "js_get obj key =
     (case map_of obj key of
        Some v \<Rightarrow> Some (JString v)
      | None \<Rightarrow> if key \<in> set Object_prototype_properties then Some (JInherited key) else None)"

fun js_truthy :: "js_value \<Rightarrow> bool" where
  "js_truthy (JString s) = (s \<noteq> [])"
| "js_truthy (JInherited k) = True"

text \<open>\<^verbatim>\<open>mapSeverityToThreatLevel\<close>: \<^verbatim>\<open>return mapping[severity] || '4'\<close>.\<close>

definition mapSeverityToThreatLevel :: "string \<Rightarrow> js_value" where
  "mapSeverityToThreatLevel sev =
     (let mapping = [(''critical'', ''1''), (''high'', ''1''), (''medium'', ''2''), (''low'', ''3'')] in
      case js_get mapping sev of
        Some v \<Rightarrow> if js_truthy v then v else JString ''4''
      | None \<Rightarrow> JString ''4'')"

text \<open>
  An attribute as \<open>buildAttributes\<close> pushes it. The comment attribute made from the
  description has no \<^verbatim>\<open>comment\<close> field.
\<close>

record misp_attribute =
  attr_category :: string
  attr_type :: string
  attr_value :: string
  attr_to_ids :: bool
  attr_comment :: "string option"

definition buildAttributes :: "DDoSEvent \<Rightarrow> misp_attribute list" where
  "buildAttributes ddosData =
     map (\<lambda>ip. \<lparr>attr_category = ''Network activity'', attr_type = ''ip-src'', attr_value = ip,
               attr_to_ids = True, attr_comment = Some ''DDoS attack source IP''\<rparr>)
       (attacker_ips ddosData)
     @ map (\<lambda>ip. \<lparr>attr_category = ''Network activity'', attr_type = ''ip-dst'', attr_value = ip,
               attr_to_ids = True, attr_comment = Some ''DDoS attack target IP''\<rparr>)
       (victim_ips ddosData)
     @ map (\<lambda>port. \<lparr>attr_category = ''Network activity'', attr_type = ''port'', attr_value = port,
               attr_to_ids = False, attr_comment = Some ''DDoS attack target port''\<rparr>)
       (attack_ports ddosData)
     @ (if description ddosData \<noteq> []
        then [\<lparr>attr_category = ''Other'', attr_type = ''comment'',
               attr_value = description ddosData, attr_to_ids = False, attr_comment = None\<rparr>]
        else [])"

text \<open>The tag strings of \<open>buildTags\<close>; they contain double quotes.\<close>

definition network_dos_cluster_tag :: string where
  \<open>network_dos_cluster_tag = ''misp-galaxy:mitre-attack-pattern="Network Denial of Service - T1498"''\<close>

definition volumetric_tag :: string where
  \<open>volumetric_tag = ''ddos:type="volumetric"''\<close>

definition reflection_tag :: string where
  \<open>reflection_tag = ''ddos:type="reflection"''\<close>

definition application_layer_tag :: string where
  \<open>application_layer_tag = ''ddos:type="application-layer"''\<close>

definition buildTags :: "DDoSEvent \<Rightarrow> string list" where
  "buildTags ddosData =
     [network_dos_cluster_tag]
     @ (if attack_type ddosData = ''direct-flood'' then [volumetric_tag]
        else if attack_type ddosData = ''amplification'' then [reflection_tag]
        else if attack_type ddosData = ''other'' then [application_layer_tag]
        else [])
     @ (if severity ddosData = ''critical'' \<or> severity ddosData = ''high'' then [''tlp:amber'']
        else if severity ddosData = ''medium'' then [''tlp:green'']
        else if severity ddosData = ''low'' then [''tlp:white'']
        else [])"

text \<open>
  The event object \<open>createDDoSEvent\<close> builds before it posts it
  (\<^verbatim>\<open>info\<close> and \<^verbatim>\<open>published\<close> are \<open>Event_info\<close> and \<open>Event_published\<close> here).
\<close>

record mispEvent =
  Event_info :: string
  threat_level_id :: js_value
  analysis :: string
  distribution :: string
  Event_published :: bool
  Attribute :: "misp_attribute list"
  Tag :: "string list"

definition createDDoSEvent_mispEvent :: "DDoSEvent \<Rightarrow> mispEvent" where
  "createDDoSEvent_mispEvent ddosData =
     \<lparr>Event_info = title ddosData,
      threat_level_id = mapSeverityToThreatLevel (severity ddosData),
      analysis = ''2'',
      distribution = ''1'',
      Event_published = False,
      Attribute = buildAttributes ddosData,
      Tag = buildTags ddosData\<rparr>"

text \<open>
  The playbook's mandatory global tags, as the repository's README and its connection test
  script list them: a TLP tag, \<^verbatim>\<open>information-security-indicators:incident-type="ddos"\<close>
  and \<^verbatim>\<open>misp-event-type:incident\<close>. A tag is recognised as one of the three kinds by
  the namespace it carries.
\<close>

definition is_sensitivity_marker :: "string \<Rightarrow> bool" where
  "is_sensitivity_marker tag = js_includes (toLowerCase tag) ''tlp:''"

definition is_incident_type_marker :: "string \<Rightarrow> bool" where
  "is_incident_type_marker tag = js_includes (toLowerCase tag) ''incident-type''"

definition is_event_type_marker :: "string \<Rightarrow> bool" where
  "is_event_type_marker tag = js_includes (toLowerCase tag) ''misp-event-type''"

text \<open>The record of the specification's example row.\<close>

definition example_row :: DDoSEvent where
  "example_row =
     \<lparr>title = ''T'', description = ''D'', attacker_ips = [''1.2.3.4''], victim_ips = [''5.6.7.8''],
      attack_ports = [''80''], attack_type = ''direct-flood'', severity = ''high''\<rparr>"

text \<open>Every tag \<open>buildTags\<close> can push, in the order of the source.\<close>

definition buildTags_range :: "string list" where
  "buildTags_range =
     [network_dos_cluster_tag, volumetric_tag, reflection_tag, application_layer_tag,
      ''tlp:amber'', ''tlp:green'', ''tlp:white'']"


section \<open>JavaScript numbers\<close>

text \<open>
  A number is \<^verbatim>\<open>NaN\<close>, an infinity or a finite IEEE 754 double, kept as the rational it
  denotes. Every sum, product and quotient is rounded to the nearest double, a tie to the
  even mantissa, and overflows to an infinity (\<open>fl\<close>). The special values follow IEEE 754
  as JavaScript does: \<^verbatim>\<open>0/0\<close> is \<^verbatim>\<open>NaN\<close>, a positive number over zero is
  \<^verbatim>\<open>Infinity\<close>, and \<^verbatim>\<open>NaN\<close> goes through every operation, also through
  \<^verbatim>\<open>Math.min\<close> and \<^verbatim>\<open>Math.max\<close>. The sign of a zero is not kept: the zero of a
  divisor is the positive zero (the divisors are lengths).
\<close>

datatype js_number = NaN | NegInfinity | Finite rat | PosInfinity

text \<open>
  The binade of a rational \<open>x\<close> that is not zero: the \<open>e\<close> with
  \<open>2 ^ e \<le> \<bar>x\<bar> < 2 ^ (e + 1)\<close>, from the bit lengths of numerator and denominator.
\<close>

definition binade :: "rat \<Rightarrow> int" where
  "binade x =
     (case quotient_of \<bar>x\<bar> of
        (p, d) \<Rightarrow> (let k = bitlen p - bitlen d in if 2 powi k \<le> \<bar>x\<bar> then k else k - 1))"

text \<open>The nearest integer, a tie to the even one.\<close>

definition round_half_even :: "rat \<Rightarrow> int" where
  "round_half_even y =
     (let f = \<lfloor>y\<rfloor>; r = y - of_int f in
      if r < 1 / 2 then f else if r > 1 / 2 then f + 1 else if even f then f else f + 1)"

text \<open>
  Rounding to a double: 53 bits of mantissa, the least exponent of the quantum \<open>-1074\<close>
  (subnormal numbers), and an infinity when the rounded magnitude reaches \<open>2 ^ 1024\<close>.
\<close>

definition fl :: "rat \<Rightarrow> js_number" where
  "fl x =
     (if x = 0 then Finite 0
      else (let q = max (binade x - 52) (- 1074);
                y = of_int (round_half_even (x / 2 powi q)) * 2 powi q
            in if \<bar>y\<bar> \<ge> 2 powi 1024 then (if x > 0 then PosInfinity else NegInfinity)
               else Finite y))"

fun js_neg :: "js_number \<Rightarrow> js_number" where
  "js_neg NaN = NaN"
| "js_neg NegInfinity = PosInfinity"
| "js_neg (Finite a) = Finite (- a)"
| "js_neg PosInfinity = NegInfinity"

fun js_add :: "js_number \<Rightarrow> js_number \<Rightarrow> js_number" where
  "js_add (Finite a) (Finite b) = fl (a + b)"
| "js_add NaN y = NaN"
| "js_add x NaN = NaN"
| "js_add PosInfinity NegInfinity = NaN"
| "js_add NegInfinity PosInfinity = NaN"
| "js_add PosInfinity y = PosInfinity"
| "js_add NegInfinity y = NegInfinity"
| "js_add (Finite a) y = y"

definition js_sub :: "js_number \<Rightarrow> js_number \<Rightarrow> js_number" where
  "js_sub x y = js_add x (js_neg y)"

text \<open>The sign of a number that is not \<^verbatim>\<open>NaN\<close>: \<open>-1\<close>, \<open>0\<close> or \<open>1\<close>.\<close>

fun js_sign :: "js_number \<Rightarrow> int" where
  "js_sign NaN = 0"
| "js_sign NegInfinity = - 1"
| "js_sign (Finite a) = (if a < 0 then - 1 else if a = 0 then 0 else 1)"
| "js_sign PosInfinity = 1"

definition js_infinity_of_sign :: "int \<Rightarrow> js_number" where
  "js_infinity_of_sign s = (if s = 0 then NaN else if s < 0 then NegInfinity else PosInfinity)"

fun js_mul :: "js_number \<Rightarrow> js_number \<Rightarrow> js_number" where
  "js_mul (Finite a) (Finite b) = fl (a * b)"
| "js_mul NaN y = NaN"
| "js_mul x NaN = NaN"
| "js_mul x y = js_infinity_of_sign (js_sign x * js_sign y)"

fun js_div :: "js_number \<Rightarrow> js_number \<Rightarrow> js_number" where
  "js_div (Finite a) (Finite b) =
     (if b = 0 then js_infinity_of_sign (js_sign (Finite a)) else fl (a / b))"
| "js_div NaN y = NaN"
| "js_div x NaN = NaN"
| "js_div (Finite a) y = Finite 0"
| "js_div x (Finite b) = js_infinity_of_sign (js_sign x * (if b < 0 then - 1 else 1))"
| "js_div x y = NaN"

text \<open>\<^verbatim>\<open>x > y\<close>: false when either side is \<^verbatim>\<open>NaN\<close>.\<close>

fun js_greater :: "js_number \<Rightarrow> js_number \<Rightarrow> bool" where
  "js_greater NaN y = False"
| "js_greater x NaN = False"
| "js_greater (Finite a) (Finite b) = (a > b)"
| "js_greater PosInfinity y = (y \<noteq> PosInfinity)"
| "js_greater x NegInfinity = (x \<noteq> NegInfinity)"
| "js_greater x y = False"

definition Math_max :: "js_number \<Rightarrow> js_number \<Rightarrow> js_number" where
  "Math_max x y = (if x = NaN \<or> y = NaN then NaN else if js_greater y x then y else x)"

definition Math_min :: "js_number \<Rightarrow> js_number \<Rightarrow> js_number" where
  "Math_min x y = (if x = NaN \<or> y = NaN then NaN else if js_greater x y then y else x)"

text \<open>
  \<^verbatim>\<open>Math.round\<close>: the nearest integer, a half rounded up. The result is an integer
  that a double holds, so nothing is rounded again.
\<close>

fun Math_round :: "js_number \<Rightarrow> js_number" where
  "Math_round (Finite a) = Finite (of_int \<lfloor>a + 1 / 2\<rfloor>)"
| "Math_round x = x"

text \<open>
  A counter or a length as a number. It is below \<open>2 ^ 53\<close> (a string or an array has
  fewer elements), and a double holds such an integer exactly.
\<close>

definition js_of_nat :: "nat \<Rightarrow> js_number" where
  "js_of_nat n = Finite (of_nat n)"

section \<open>Metrics Aggregator\<close>

text \<open>
  \<^verbatim>\<open>EventMetrics\<close>, without the monthly histogram, the attack types and the recent events:
  the histogram and the recent events read the clock and parse dates, and the score reads
  none of the three. The bucket \<^verbatim>\<open>undefined\<close> is \<open>undefined'\<close> here, and the count
  \<^verbatim>\<open>published\<close> is \<open>published_count\<close>.
\<close>

record threat_level_counts =
  high :: nat
  medium :: nat
  low :: nat
  undefined' :: nat

record published_counts =
  published_count :: nat
  unpublished :: nat

text \<open>
  A count of \<open>calculateTlpDistribution\<close>. \<^verbatim>\<open>(tlpCounts[k] || 0) + 1\<close> is a number, unless
  \<open>k\<close> names a property every object inherits: then the left operand is a built-in
  function and \<^verbatim>\<open>+\<close> concatenates, so the count is a string that is no numeral
  (\<open>TextCount\<close>; its characters are not modelled).
\<close>

datatype tlp_count = NumberCount nat | TextCount

record tlp_entry =
  level :: string
  count :: tlp_count
  color :: js_value

record EventMetrics =
  totalEvents :: nat
  eventsByThreatLevel :: threat_level_counts
  tlpDistribution :: "tlp_entry list"
  publishedVsUnpublished :: published_counts

text \<open>
  \<^verbatim>\<open>tlpCounts[key] = (tlpCounts[key] || 0) + 1\<close> on the object kept as its list of own
  properties, in the order they were added. Assigning a string to \<^verbatim>\<open>__proto__\<close> adds no
  property.
\<close>

definition count_up :: "(string \<times> tlp_count) list \<Rightarrow> string \<Rightarrow> (string \<times> tlp_count) list" where
  "count_up tlpCounts key =
     (case map_of tlpCounts key of
        Some (NumberCount n) \<Rightarrow> map (\<lambda>(k, v). if k = key then (k, NumberCount (n + 1)) else (k, v)) tlpCounts
      | Some TextCount \<Rightarrow> tlpCounts
      | None \<Rightarrow>
          if key = ''__proto__'' then tlpCounts
          else if key \<in> set Object_prototype_properties then tlpCounts @ [(key, TextCount)]
          else tlpCounts @ [(key, NumberCount 1)])"

text \<open>The loop over one event's tags: the counts and the flag \<^verbatim>\<open>hasTlp\<close>.\<close>

fun count_tags :: "(string \<times> tlp_count) list \<times> bool \<Rightarrow> misp_tag list
    \<Rightarrow> (string \<times> tlp_count) list \<times> bool" where
  "count_tags (tlpCounts, hasTlp) [] = (tlpCounts, hasTlp)"
| "count_tags (tlpCounts, hasTlp) (tag # rest) =
     (let tagName = toLowerCase (name tag) in
      if js_includes tagName ''tlp:''
      then count_tags (count_up tlpCounts (js_remove_first ''tlp:'' tagName), True) rest
      else count_tags (tlpCounts, hasTlp) rest)"

fun count_events :: "(string \<times> tlp_count) list \<Rightarrow> MISPEvent list \<Rightarrow> (string \<times> tlp_count) list" where
  "count_events tlpCounts [] = tlpCounts"
| "count_events tlpCounts (event # rest) =
     (case count_tags (tlpCounts, False) (tags event) of
        (counts, hasTlp) \<Rightarrow>
          count_events (if \<not> hasTlp then count_up counts ''undefined'' else counts) rest)"

text \<open>
  \<open>calculateTlpDistribution\<close>. The entries are listed in the order the keys were added
  (JavaScript lists keys that are array indices first; the score searches the list for one
  level and does not depend on the order).
\<close>

definition calculateTlpDistribution :: "MISPEvent list \<Rightarrow> tlp_entry list" where
  "calculateTlpDistribution events =
     (let tlpColors = [(''red'', ''#f44336''), (''amber'', ''#ff9800''), (''green'', ''#4caf50''),
                       (''white'', ''#e0e0e0''), (''undefined'', ''#9e9e9e'')] in
      map (\<lambda>(lvl, cnt).
             \<lparr>level = toUpperCase lvl, count = cnt,
              color = (case js_get tlpColors lvl of
                         Some v \<Rightarrow> if js_truthy v then v else JString ''#9e9e9e''
                       | None \<Rightarrow> JString ''#9e9e9e'')\<rparr>)
        (count_events [] events))"

text \<open>\<open>calculateMetrics\<close>, for the fields kept.\<close>

definition calculateMetrics :: "MISPEvent list \<Rightarrow> EventMetrics" where
  "calculateMetrics events =
     \<lparr>totalEvents = length events,
      eventsByThreatLevel =
        \<lparr>high = length (filter (\<lambda>e. threat_level e = TL1) events),
         medium = length (filter (\<lambda>e. threat_level e = TL2) events),
         low = length (filter (\<lambda>e. threat_level e = TL3) events),
         undefined' = length (filter (\<lambda>e. threat_level e = TL4) events)\<rparr>,
      tlpDistribution = calculateTlpDistribution events,
      publishedVsUnpublished =
        \<lparr>published_count = length (filter (\<lambda>e. published e) events),
         unpublished = length (filter (\<lambda>e. \<not> published e) events)\<rparr>\<rparr>"

text \<open>
  \<open>calculateSecurityPosture\<close>. \<^verbatim>\<open>tlpRedEvents.count > 0\<close> is false for a count that is
  a string and no numeral.
\<close>

definition calculateSecurityPosture :: "EventMetrics \<Rightarrow> js_number" where
  "calculateSecurityPosture metrics =
     (let score0 = Finite 100;
          highThreatRatio = js_div (js_of_nat (high (eventsByThreatLevel metrics)))
                                   (js_of_nat (totalEvents metrics));
          score1 = js_sub score0 (js_mul highThreatRatio (Finite 30));
          unpublishedRatio = js_div (js_of_nat (unpublished (publishedVsUnpublished metrics)))
                                    (js_of_nat (totalEvents metrics));
          score2 = js_sub score1 (js_mul unpublishedRatio (Finite 20));
          tlpRedEvents = find (\<lambda>t. level t = ''RED'') (tlpDistribution metrics);
          score3 = (case tlpRedEvents of
                      Some t \<Rightarrow>
                        (case count t of
                           NumberCount c \<Rightarrow>
                             if c > 0
                             then js_sub score2
                                    (js_mul (js_div (js_of_nat c) (js_of_nat (totalEvents metrics)))
                                            (Finite 25))
                             else score2
                         | TextCount \<Rightarrow> score2)
                    | None \<Rightarrow> score2)
      in Math_max (Finite 0) (Math_min (Finite 100) score3))"


section \<open>Regular expressions of the Heuristic Quality Assessor\<close>

text \<open>
  The two patterns use character classes, sequence, alternation, an optional part and
  bounded repetition, between \<^verbatim>\<open>^\<close> and \<^verbatim>\<open>$\<close>. \<open>residuals r s\<close> lists, in the
  order a backtracking matcher tries them, what is left of \<open>s\<close> after \<open>r\<close> has matched a
  prefix; \<^verbatim>\<open>/^r$/.test(s)\<close> holds when one of them is empty.
\<close>

datatype regex = Class string | Eps | Seq regex regex | Alt regex regex | Opt regex

fun residuals :: "regex \<Rightarrow> string \<Rightarrow> string list" where
  "residuals (Class cs) s = (case s of [] \<Rightarrow> [] | c # rest \<Rightarrow> if c \<in> set cs then [rest] else [])"
| "residuals Eps s = [s]"
| "residuals (Seq a b) s = concat (map (residuals b) (residuals a s))"
| "residuals (Alt a b) s = residuals a s @ residuals b s"
| "residuals (Opt a) s = residuals a s @ [s]"

definition regex_test :: "regex \<Rightarrow> string \<Rightarrow> bool" where
  "regex_test r s = ([] \<in> set (residuals r s))"

fun seqs :: "regex list \<Rightarrow> regex" where
  "seqs [] = Eps"
| "seqs [r] = r"
| "seqs (r # rs) = Seq r (seqs rs)"

fun alts :: "regex \<Rightarrow> regex list \<Rightarrow> regex" where
  "alts r [] = r"
| "alts r (r' # rs) = Alt r (alts r' rs)"

text \<open>\<^verbatim>\<open>r{n}\<close> and \<^verbatim>\<open>r{0,n}\<close>.\<close>

fun repeat_exactly :: "nat \<Rightarrow> regex \<Rightarrow> regex" where
  "repeat_exactly 0 r = Eps"
| "repeat_exactly (Suc n) r = Seq r (repeat_exactly n r)"

fun repeat_upto :: "nat \<Rightarrow> regex \<Rightarrow> regex" where
  "repeat_upto 0 r = Eps"
| "repeat_upto (Suc n) r = Opt (Seq r (repeat_upto n r))"

definition digit :: regex where
  "digit = Class ''0123456789''"

text \<open>\<^verbatim>\<open>(?:25[0-5]|2[0-4][0-9]|[01]?[0-9][0-9]?)\<close>\<close>

definition octet :: regex where
  "octet = alts (seqs [Class ''2'', Class ''5'', Class ''012345''])
             [seqs [Class ''2'', Class ''01234'', digit],
              seqs [Opt (Class ''01''), digit, Opt digit]]"

text \<open>\<^verbatim>\<open>/^(?:(?:25[0-5]|2[0-4][0-9]|[01]?[0-9][0-9]?)\.){3}(?:25[0-5]|2[0-4][0-9]|[01]?[0-9][0-9]?)$/\<close>\<close>

definition ipPattern :: regex where
  "ipPattern = Seq (repeat_exactly 3 (Seq octet (Class ''.''))) octet"

text \<open>\<^verbatim>\<open>/^(?:[1-9][0-9]{0,3}|[1-5][0-9]{4}|6[0-4][0-9]{3}|65[0-4][0-9]{2}|655[0-2][0-9]|6553[0-5])$/\<close>\<close>

definition portPattern :: regex where
  "portPattern = alts (Seq (Class ''123456789'') (repeat_upto 3 digit))
                   [Seq (Class ''12345'') (repeat_exactly 4 digit),
                    seqs [Class ''6'', Class ''01234'', repeat_exactly 3 digit],
                    seqs [Class ''6'', Class ''5'', Class ''01234'', repeat_exactly 2 digit],
                    seqs [Class ''6'', Class ''5'', Class ''5'', Class ''012'', digit],
                    seqs [Class ''6'', Class ''5'', Class ''5'', Class ''3'', Class ''012345'']]"


section \<open>Heuristic Quality Assessor\<close>

text \<open>
  \<^verbatim>\<open>content.split('\n').filter(line => line.trim())\<close>: the lines that are not blank.
\<close>

definition csv_lines :: "string \<Rightarrow> string list" where
  "csv_lines content = filter (\<lambda>line. js_trim line \<noteq> []) (js_split (CHR 0x0A) content)"

text \<open>
  The body of the loop over the data lines of a CSV file: the number of issues one line
  adds. \<^verbatim>\<open>row[3]\<close> is \<^verbatim>\<open>undefined\<close> for a row of three cells, and the victim list is
  then empty.
\<close>

definition csv_row_issues :: "string \<Rightarrow> nat" where
  "csv_row_issues line =
     (let row = js_split (CHR '','') line;
          ipIssues =
            (if length row > 2
             then (let attackerIPs = map js_trim (js_split (CHR '';'') (row ! 2));
                       victimIPs = (if length row > 3
                                    then map js_trim (js_split (CHR '';'') (row ! 3)) else [])
                   in length (filter (\<lambda>ip. ip \<noteq> [] \<and> \<not> regex_test ipPattern ip)
                                (attackerIPs @ victimIPs)))
             else 0);
          portIssues =
            (if length row > 4
             then (let ports = map js_trim (js_split (CHR '';'') (row ! 4))
                   in length (filter (\<lambda>port. port \<noteq> [] \<and> \<not> regex_test portPattern port) ports))
             else 0)
      in ipIssues + portIssues)"

text \<open>
  An element of a JSON batch, as far as the assessor reads it: the three properties it
  tests, each absent or \<^verbatim>\<open>null\<close> (\<open>None\<close>) or of the type the interface \<^verbatim>\<open>DDoSEvent\<close>
  declares. A value that has none of the three properties (a number, a string, an empty
  object) is the record with three \<open>None\<close>.
\<close>

record json_event =
  ev_title :: "string option"
  ev_attacker_ips :: "string list option"
  ev_severity :: "string option"

text \<open>
  The result of \<^verbatim>\<open>JSON.parse\<close>: an array or another value. An element is \<open>None\<close> when
  it is \<^verbatim>\<open>null\<close>, whose properties cannot be read.
\<close>

datatype json_data = NotArray "json_event option" | JsonArray "json_event option list"

text \<open>The body of \<^verbatim>\<open>events.forEach\<close>: the number of issues one element adds.\<close>

definition json_event_issues :: "json_event \<Rightarrow> nat" where
  "json_event_issues event =
     (if (case ev_title event of None \<Rightarrow> True | Some t \<Rightarrow> t = [] \<or> length t < 10) then 1 else 0)
     + (if (case ev_attacker_ips event of None \<Rightarrow> True | Some ips \<Rightarrow> length ips = 0) then 1 else 0)
     + (if (case ev_severity event of
              None \<Rightarrow> True
            | Some s \<Rightarrow> s = [] \<or> s \<notin> set [''low'', ''medium'', ''high'', ''critical''])
        then 1 else 0)"

text \<open>
  \<^verbatim>\<open>events.forEach\<close> from a value of \<open>dataIssues\<close>: \<open>None\<close> when it throws, at the
  first element that is \<^verbatim>\<open>null\<close>.
\<close>

fun forEach_event :: "nat \<Rightarrow> json_event option list \<Rightarrow> nat option" where
  "forEach_event dataIssues [] = Some dataIssues"
| "forEach_event dataIssues (None # rest) = None"
| "forEach_event dataIssues (Some event # rest) =
     forEach_event (dataIssues + json_event_issues event) rest"

datatype confidence = High | Medium | Low

record AIProcessingResult =
  correctionsCount :: nat
  dataQualityScore :: js_number
  suggestedImprovements :: "string list"
  confidenceLevel :: confidence

text \<open>A number in a template string: its decimal digits.\<close>

fun nat_to_string :: "nat \<Rightarrow> string" where
  "nat_to_string n =
     (if n < 10 then [''0123456789'' ! n]
      else nat_to_string (n div 10) @ [''0123456789'' ! (n mod 10)])"

text \<open>
  The second half of \<open>preValidateFileWithAI\<close>: from the two counters to the result. The
  literal \<^verbatim>\<open>0.3\<close> is the double nearest to three tenths.
\<close>

definition assessment :: "nat \<Rightarrow> nat \<Rightarrow> AIProcessingResult" where
  "assessment dataIssues totalRecords =
     (let issueRatio = js_div (js_of_nat dataIssues) (Math_max (js_of_nat totalRecords) (Finite 1));
          suggestions =
            (if dataIssues > 0
             then [nat_to_string dataIssues @ '' data quality issues detected that will be auto-corrected'']
             else [])
            @ (if totalRecords > 100
               then [''Large dataset detected - processing may take 2-3 minutes''] else [])
            @ (if js_greater issueRatio (fl (3 / 10))
               then [''Consider reviewing source data quality for future uploads''] else []);
          qualityScore = Math_max (Finite 0) (js_sub (Finite 100) (js_mul issueRatio (Finite 100)));
          confidenceLevel = (if js_greater qualityScore (Finite 80) then High
                             else if js_greater qualityScore (Finite 60) then Medium else Low)
      in \<lparr>correctionsCount = dataIssues,
          dataQualityScore = Math_round qualityScore,
          suggestedImprovements = suggestions,
          confidenceLevel = confidenceLevel\<rparr>)"

text \<open>The result of the \<^verbatim>\<open>catch\<close> branch.\<close>

definition unable_to_analyze :: AIProcessingResult where
  "unable_to_analyze =
     \<lparr>correctionsCount = 0, dataQualityScore = Finite 0,
      suggestedImprovements = [''Unable to analyze file - will process with server-side AI''],
      confidenceLevel = Low\<rparr>"

text \<open>
  A file: its name, its MIME type, its size in bytes and its text. The text is taken as
  read: an error of the \<^verbatim>\<open>FileReader\<close> is not modelled.
\<close>

record upload_file =
  file_name :: string
  file_type :: string
  file_size :: nat
  file_content :: string

text \<open>
  The first half of \<open>preValidateFileWithAI\<close>: the counters \<open>(dataIssues, totalRecords)\<close>
  of the batch, or \<open>None\<close> when the \<^verbatim>\<open>try\<close> block throws. \<^verbatim>\<open>JSON.parse\<close> is the
  platform's and is a parameter: it returns \<open>None\<close> for a text that is no JSON.
\<close>

definition batch_counters :: "(string \<Rightarrow> json_data option) \<Rightarrow> upload_file \<Rightarrow> (nat \<times> nat) option" where
  "batch_counters JSON_parse file =
     (if js_endsWith (toLowerCase (file_name file)) ''.csv''
      then (let lines = csv_lines (file_content file)
            in Some (foldl (\<lambda>dataIssues line. dataIssues + csv_row_issues line) 0 (tl lines),
                     length lines - 1))
      else if js_endsWith (toLowerCase (file_name file)) ''.json''
      then (case JSON_parse (file_content file) of
              None \<Rightarrow> None
            | Some data \<Rightarrow>
                (let events = (case data of JsonArray es \<Rightarrow> es | NotArray e \<Rightarrow> [e])
                 in (case forEach_event 0 events of
                       None \<Rightarrow> None
                     | Some dataIssues \<Rightarrow> Some (dataIssues, length events))))
      else Some (0, 0))"

definition preValidateFileWithAI :: "(string \<Rightarrow> json_data option) \<Rightarrow> upload_file \<Rightarrow> AIProcessingResult" where
  "preValidateFileWithAI JSON_parse file =
     (case batch_counters JSON_parse file of
        None \<Rightarrow> unable_to_analyze
      | Some (dataIssues, totalRecords) \<Rightarrow> assessment dataIssues totalRecords)"

text \<open>
  The specification's formula for the quality score, on rationals:
  \<open>max(0, 100 - 100 * correctionsCount / max(batchSize, 1))\<close>.
\<close>

definition spec_qualityScore :: "nat \<Rightarrow> nat \<Rightarrow> rat" where
  "spec_qualityScore correctionsCount' batchSize =
     max 0 (100 - 100 * of_nat correctionsCount' / of_nat (max batchSize 1))"

text \<open>Three records of a JSON batch: two without an issue and one with no severity.\<close>

definition sound_event :: json_event where
  "sound_event = \<lparr>ev_title = Some ''UDP flood on the edge routers'',
                  ev_attacker_ips = Some [''198.51.100.1''], ev_severity = Some ''high''\<rparr>"

definition batch_of_three :: "string \<Rightarrow> json_data option" where
  "batch_of_three text =
     Some (JsonArray [Some sound_event, Some sound_event, Some (sound_event\<lparr>ev_severity := None\<rparr>)])"

text \<open>A JSON batch whose second element is \<^verbatim>\<open>null\<close>.\<close>

definition batch_with_null :: "string \<Rightarrow> json_data option" where
  "batch_with_null text = Some (JsonArray [Some sound_event, None])"

definition json_file :: upload_file where
  "json_file = \<lparr>file_name = ''events.json'', file_type = ''application/json'', file_size = 5,
                 file_content = ''[...]''\<rparr>"

text \<open>A record with a title of 8 characters, no attacker list and a known severity.\<close>

definition short_title_event :: json_event where
  "short_title_event =
     \<lparr>ev_title = Some ''abcdefgh'', ev_attacker_ips = None, ev_severity = Some ''low''\<rparr>"


section \<open>Structural Validator\<close>

text \<open>
  \<open>validateCSVContent\<close> of \<^verbatim>\<open>fileProcessing.ts\<close>: \<open>Inl\<close> is the message of the error
  thrown, \<open>Inr ()\<close> is a normal return.
\<close>

definition requiredColumns :: "string list" where
  "requiredColumns =
     [''title'', ''description'', ''attacker_ips'', ''victim_ips'', ''attack_type'', ''severity'']"

definition validateCSVContent :: "string \<Rightarrow> string + unit" where
  "validateCSVContent content =
     (let lines = csv_lines content in
      if length lines < 2
      then Inl ''CSV file must contain at least a header and one data row.''
      else (let header = toLowerCase (lines ! 0);
                missingColumns = filter (\<lambda>col. \<not> js_includes header col) requiredColumns
            in if length missingColumns > 0
               then Inl (''CSV missing required columns: '' @ js_join '', '' missingColumns)
               else Inr ()))"












text \<open>
  The job \<open>uploadAndProcess\<close> returns, without its two time stamps (\<^verbatim>\<open>id\<close> and
  \<^verbatim>\<open>size\<close> are \<open>job_id\<close> and \<open>job_size\<close> here).
\<close>

datatype job_status = Pending | Processing | Completed | Failed








section \<open>Facts about rounding to a double\<close>

lemma powi2_le_iff: "(2::rat) powi m \<le> 2 powi n \<longleftrightarrow> m \<le> n"
proof
  assume le: "(2::rat) powi m \<le> 2 powi n"
  show "m \<le> n"
  proof (rule ccontr)
    assume "\<not> m \<le> n"
    then have "n < m" by simp
    then have "(2::rat) powi n < 2 powi m" by (rule power_int_strict_increasing) simp
    with le show False by simp
  qed
next
  assume "m \<le> n"
  then show "(2::rat) powi m \<le> 2 powi n" by (rule power_int_increasing) simp
qed

lemma powi2_less_iff: "(2::rat) powi m < 2 powi n \<longleftrightarrow> m < n"
  using powi2_le_iff [of n m] by (auto simp: not_le [symmetric])

lemma powi2_pos: "(0::rat) < 2 powi k"
  by simp

lemma powi2_succ: "(2::rat) powi (k + 1) = 2 * 2 powi k"
  by (simp add: power_int_add)

lemma binade_bounds:
  assumes "x \<noteq> 0"
  shows "2 powi binade x \<le> \<bar>x\<bar>" and "\<bar>x\<bar> < 2 powi (binade x + 1)"
proof -
  obtain p d where pd: "quotient_of \<bar>x\<bar> = (p, d)" by (cases "quotient_of \<bar>x\<bar>")
  have d: "d > 0" using pd by (rule quotient_of_denom_pos)
  have x: "\<bar>x\<bar> = of_int p / of_int d" using pd by (rule quotient_of_div)
  have p: "p > 0"
  proof (rule ccontr)
    assume "\<not> p > 0"
    then have "of_int p / (of_int d :: rat) \<le> 0" using d by (simp add: divide_nonpos_pos)
    with x assms show False by simp
  qed
  define k where "k = bitlen p - bitlen d"
  have bp: "bitlen p \<ge> 1" using p by (simp add: bitlen_alt_def)
  have bd: "bitlen d \<ge> 1" using d by (simp add: bitlen_alt_def)
  from bitlen_bounds [OF p] have p1: "2 ^ nat (bitlen p - 1) \<le> p" and p2: "p < 2 ^ nat (bitlen p)" by auto
  from bitlen_bounds [OF d] have d1: "2 ^ nat (bitlen d - 1) \<le> d" and d2: "d < 2 ^ nat (bitlen d)" by auto
  have P1: "(2::rat) powi (bitlen p - 1) \<le> of_int p"
  proof -
    have "(of_int (2 ^ nat (bitlen p - 1)) :: rat) \<le> of_int p" using p1 by (simp only: of_int_le_iff)
    moreover have "(2::rat) powi (bitlen p - 1) = 2 ^ nat (bitlen p - 1)" using bp by (simp add: power_int_def)
    ultimately show ?thesis by simp
  qed
  have P2: "of_int p < (2::rat) powi (bitlen p)"
  proof -
    have "(of_int p :: rat) < of_int (2 ^ nat (bitlen p))" using p2 by (simp only: of_int_less_iff)
    moreover have "(2::rat) powi (bitlen p) = 2 ^ nat (bitlen p)" using bp by (simp add: power_int_def)
    ultimately show ?thesis by simp
  qed
  have D1: "(2::rat) powi (bitlen d - 1) \<le> of_int d"
  proof -
    have "(of_int (2 ^ nat (bitlen d - 1)) :: rat) \<le> of_int d" using d1 by (simp only: of_int_le_iff)
    moreover have "(2::rat) powi (bitlen d - 1) = 2 ^ nat (bitlen d - 1)" using bd by (simp add: power_int_def)
    ultimately show ?thesis by simp
  qed
  have D2: "of_int d < (2::rat) powi (bitlen d)"
  proof -
    have "(of_int d :: rat) < of_int (2 ^ nat (bitlen d))" using d2 by (simp only: of_int_less_iff)
    moreover have "(2::rat) powi (bitlen d) = 2 ^ nat (bitlen d)" using bd by (simp add: power_int_def)
    ultimately show ?thesis by simp
  qed
  have dpos: "(0::rat) < of_int d" using d by simp
  have ppos: "(0::rat) < of_int p" using p by simp
  have up: "\<bar>x\<bar> < 2 powi (k + 1)"
  proof -
    have "of_int p / of_int d < (2::rat) powi (bitlen p) / 2 powi (bitlen d - 1)"
      using P2 D1 dpos ppos by (intro frac_less) simp_all
    also have "\<dots> = 2 powi (bitlen p - (bitlen d - 1))" by (simp add: power_int_diff)
    also have "bitlen p - (bitlen d - 1) = k + 1" by (simp add: k_def)
    finally show ?thesis using x by simp
  qed
  have lo: "2 powi (k - 1) < \<bar>x\<bar>"
  proof -
    have "(2::rat) powi (bitlen p - 1) / 2 powi (bitlen d) < of_int p / of_int d"
      using P1 D2 dpos by (intro frac_less2) simp_all
    moreover have "(2::rat) powi (bitlen p - 1) / 2 powi (bitlen d) = 2 powi (bitlen p - 1 - bitlen d)"
      by (simp add: power_int_diff)
    moreover have "bitlen p - 1 - bitlen d = k - 1" by (simp add: k_def)
    ultimately show ?thesis using x by simp
  qed
  have b: "binade x = (if 2 powi k \<le> \<bar>x\<bar> then k else k - 1)"
    by (simp add: binade_def pd k_def Let_def)
  show "2 powi binade x \<le> \<bar>x\<bar>" using b lo by (auto simp: less_imp_le)
  show "\<bar>x\<bar> < 2 powi (binade x + 1)" using b up by (auto simp: not_le)
qed

lemma binade_eqI:
  assumes "2 powi e \<le> \<bar>x\<bar>" and "\<bar>x\<bar> < 2 powi (e + 1)"
  shows "binade x = e"
proof -
  have "(0::rat) < 2 powi e" by simp
  with assms(1) have "0 < \<bar>x\<bar>" by linarith
  then have nz: "x \<noteq> 0" by auto
  from binade_bounds [OF nz] have a: "2 powi binade x \<le> \<bar>x\<bar>" and b: "\<bar>x\<bar> < 2 powi (binade x + 1)" by auto
  from a assms(2) have "(2::rat) powi binade x < 2 powi (e + 1)" by simp
  then have "binade x < e + 1" by (simp only: powi2_less_iff)
  moreover from assms(1) b have "(2::rat) powi e < 2 powi (binade x + 1)" by simp
  then have "e < binade x + 1" by (simp only: powi2_less_iff)
  ultimately show ?thesis by simp
qed

lemma round_half_even_error: "\<bar>of_int (round_half_even y) - y\<bar> \<le> 1 / 2"
proof -
  have "of_int \<lfloor>y\<rfloor> \<le> y" "y < of_int \<lfloor>y\<rfloor> + 1" by linarith+
  then show ?thesis by (auto simp: round_half_even_def Let_def)
qed

lemma round_half_even_eqI:
  assumes "\<bar>y - of_int m\<bar> < 1 / 2"
  shows "round_half_even y = m"
proof -
  have f: "of_int \<lfloor>y\<rfloor> \<le> y" "y < of_int \<lfloor>y\<rfloor> + 1" by linarith+
  consider "y \<ge> of_int m" | "y < of_int m" by linarith
  then show ?thesis
  proof cases
    case 1
    with assms have "of_int m \<le> y" "y < of_int m + 1" by linarith+
    then have "\<lfloor>y\<rfloor> = m" by linarith
    with assms 1 show ?thesis by (auto simp: round_half_even_def Let_def)
  next
    case 2
    with assms have "of_int (m - 1) \<le> y" "y < of_int (m - 1) + 1" by auto
    then have "\<lfloor>y\<rfloor> = m - 1" by linarith
    with assms 2 show ?thesis by (auto simp: round_half_even_def Let_def)
  qed
qed

lemma round_half_even_of_int: "round_half_even (of_int m) = m"
  by (rule round_half_even_eqI) simp


lemma fl_eqI:
  assumes e: "2 powi e \<le> \<bar>x\<bar>" "\<bar>x\<bar> < 2 powi (e + 1)"
    and q: "q = max (e - 52) (- 1074)"
    and m: "\<bar>x / 2 powi q - of_int m\<bar> < 1 / 2"
    and y: "y = of_int m * 2 powi q"
    and fin: "\<bar>y\<bar> < 2 powi 1024"
  shows "fl x = Finite y"
proof -
  have "(0::rat) < 2 powi e" by simp
  with e(1) have "0 < \<bar>x\<bar>" by linarith
  then have nz: "x \<noteq> 0" by auto
  have b: "binade x = e" using e by (rule binade_eqI)
  have r: "round_half_even (x / 2 powi q) = m" using m by (rule round_half_even_eqI)
  show ?thesis using nz fin by (simp add: fl_def b q [symmetric] r y [symmetric] Let_def)
qed

lemma fl_quantum_error:
  assumes "x \<noteq> 0" and "q = max (binade x - 52) (- 1074)"
  shows "\<bar>of_int (round_half_even (x / 2 powi q)) * 2 powi q - x\<bar> \<le> 2 powi (q - 1)"
proof -
  let ?z = "x / 2 powi q"
  have pos: "(0::rat) < 2 powi q" by simp
  have "of_int (round_half_even ?z) * 2 powi q - x = (of_int (round_half_even ?z) - ?z) * 2 powi q"
    using pos by (simp add: algebra_simps)
  then have "\<bar>of_int (round_half_even ?z) * 2 powi q - x\<bar> = \<bar>of_int (round_half_even ?z) - ?z\<bar> * 2 powi q"
    using pos by (simp add: abs_mult)
  also have "\<dots> \<le> (1 / 2) * 2 powi q"
    using round_half_even_error [of ?z] pos by (intro mult_right_mono) simp_all
  also have "\<dots> = 2 powi (q - 1)" by (simp add: power_int_diff)
  finally show ?thesis .
qed

lemma fl_abs_error:
  assumes "\<bar>x\<bar> \<le> 2 powi k" and "- 1022 \<le> k" and "k \<le> 1022"
  shows "\<exists>y. fl x = Finite y \<and> \<bar>y - x\<bar> \<le> 2 powi (k - 53)"
proof (cases "x = 0")
  case True
  then show ?thesis by (simp add: fl_def)
next
  case False
  define q where "q = max (binade x - 52) (- 1074)"
  define y :: rat where "y = of_int (round_half_even (x / 2 powi q)) * 2 powi q"
  have "2 powi binade x \<le> \<bar>x\<bar>" using False by (rule binade_bounds)
  with assms(1) have "(2::rat) powi binade x \<le> 2 powi k" by simp
  then have bk: "binade x \<le> k" by (simp only: powi2_le_iff)
  have qk: "q - 1 \<le> k - 53" using bk assms(2) by (simp add: q_def)
  have err: "\<bar>y - x\<bar> \<le> 2 powi (q - 1)"
    unfolding y_def using False q_def by (rule fl_quantum_error)
  have "(2::rat) powi (q - 1) \<le> 2 powi (k - 53)" using qk by (simp only: powi2_le_iff)
  with err have err2: "\<bar>y - x\<bar> \<le> 2 powi (k - 53)" by simp
  have "(2::rat) powi (k - 53) \<le> 2 powi k" by (simp only: powi2_le_iff)
  with err2 assms(1) have "\<bar>y\<bar> \<le> 2 * 2 powi k" by linarith
  also have "\<dots> = 2 powi (k + 1)" by (simp add: powi2_succ)
  also have "\<dots> < 2 powi 1024" using assms(3) by (simp only: powi2_less_iff)
  finally have fin: "\<bar>y\<bar> < 2 powi 1024" .
  have "fl x = Finite y" using False fin by (simp add: fl_def q_def [symmetric] y_def [symmetric] Let_def)
  with err2 show ?thesis by blast
qed

lemma fl_rel_error:
  assumes "2 powi (- 1022) \<le> \<bar>x\<bar>" and "\<bar>x\<bar> \<le> 2 powi 1022"
  shows "\<exists>y. fl x = Finite y \<and> \<bar>y - x\<bar> \<le> \<bar>x\<bar> * 2 powi (- 53)"
proof -
  have "(0::rat) < 2 powi (- 1022)" by (rule powi2_pos)
  with assms(1) have "0 < \<bar>x\<bar>" by linarith
  then have nz: "x \<noteq> 0" by auto
  define q where "q = max (binade x - 52) (- 1074)"
  define y :: rat where "y = of_int (round_half_even (x / 2 powi q)) * 2 powi q"
  have lo: "2 powi binade x \<le> \<bar>x\<bar>" using nz by (rule binade_bounds)
  have err: "\<bar>y - x\<bar> \<le> 2 powi (q - 1)"
    unfolding y_def using nz q_def by (rule fl_quantum_error)
  have qb: "2 powi (q - 1) \<le> \<bar>x\<bar> * 2 powi (- 53)"
  proof (cases "binade x - 52 \<ge> - 1074")
    case True
    then have eq: "q - 1 = binade x + (- 53)" by (simp add: q_def)
    have "(2::rat) powi (binade x + (- 53)) = 2 powi binade x * 2 powi (- 53)"
      by (rule power_int_add) simp
    then have "(2::rat) powi (q - 1) = 2 powi binade x * 2 powi (- 53)"
      by (simp only: eq)
    also have "\<dots> \<le> \<bar>x\<bar> * 2 powi (- 53)" using lo by (intro mult_right_mono) simp_all
    finally show ?thesis .
  next
    case False
    then have eq: "q - 1 = (- 1022) + (- 53)" by (simp add: q_def)
    have "(2::rat) powi ((- 1022) + (- 53)) = 2 powi (- 1022) * 2 powi (- 53)"
      by (rule power_int_add) simp
    then have "(2::rat) powi (q - 1) = 2 powi (- 1022) * 2 powi (- 53)"
      by (simp only: eq)
    also have "\<dots> \<le> \<bar>x\<bar> * 2 powi (- 53)" using assms(1) by (intro mult_right_mono) simp_all
    finally show ?thesis .
  qed
  with err have err2: "\<bar>y - x\<bar> \<le> \<bar>x\<bar> * 2 powi (- 53)" by simp
  have "(2::rat) powi (- 53) \<le> 1" using powi2_le_iff [of "- 53" 0] by simp
  then have "\<bar>x\<bar> * 2 powi (- 53) \<le> \<bar>x\<bar> * 1" by (intro mult_left_mono) simp_all
  with err2 assms(2) have "\<bar>y\<bar> \<le> 2 * 2 powi 1022" by linarith
  also have "\<dots> = 2 powi (1022 + 1)" by (simp only: powi2_succ)
  also have "\<dots> < 2 powi 1024" by (simp only: powi2_less_iff)
  finally have fin: "\<bar>y\<bar> < 2 powi 1024" .
  have "fl x = Finite y" using nz fin by (simp add: fl_def q_def [symmetric] y_def [symmetric] Let_def)
  with err2 show ?thesis by blast
qed

lemma fl_of_int:
  assumes "\<bar>i\<bar> < 2 ^ 53"
  shows "fl (of_int i) = Finite (of_int i)"
proof (cases "i = 0")
  case True
  then show ?thesis by (simp add: fl_def)
next
  case False
  let ?x = "of_int i :: rat"
  have nz: "?x \<noteq> 0" using False by simp
  define q where "q = max (binade ?x - 52) (- 1074)"
  have "2 powi binade ?x \<le> \<bar>?x\<bar>" using nz by (rule binade_bounds)
  moreover have "\<bar>?x\<bar> < 2 powi 53"
  proof -
    have "(of_int \<bar>i\<bar> :: rat) < of_int (2 ^ 53)" using assms by (simp only: of_int_less_iff)
    then show ?thesis by simp
  qed
  ultimately have "(2::rat) powi binade ?x < 2 powi 53" by simp
  then have "binade ?x < 53" by (simp only: powi2_less_iff)
  then have q0: "q \<le> 0" by (simp add: q_def)
  have "?x / 2 powi q = ?x * 2 powi (- q)" by (simp add: power_int_minus field_simps)
  also have "(2::rat) powi (- q) = 2 ^ nat (- q)" using q0 by (simp add: power_int_def)
  also have "?x * 2 ^ nat (- q) = of_int (i * 2 ^ nat (- q))" by simp
  finally have z: "?x / 2 powi q = of_int (i * 2 ^ nat (- q))" .
  have r: "round_half_even (?x / 2 powi q) = i * 2 ^ nat (- q)"
    unfolding z by (rule round_half_even_of_int)
  have y: "of_int (round_half_even (?x / 2 powi q)) * 2 powi q = ?x"
    using z by (simp add: r [symmetric] field_simps)
  have "\<bar>?x\<bar> < 2 powi 1024"
  proof -
    have "(of_int \<bar>i\<bar> :: rat) < of_int (2 ^ 53)" using assms by (simp only: of_int_less_iff)
    then have "\<bar>?x\<bar> < 2 powi 53" by simp
    also have "(2::rat) powi 53 < 2 powi 1024" by (simp only: powi2_less_iff)
    finally show ?thesis .
  qed
  then show ?thesis using nz by (simp add: fl_def q_def [symmetric] y Let_def)
qed

section \<open>Facts about the string functions\<close>

lemma js_includes_iff: "js_includes s sub \<longleftrightarrow> (\<exists>pre suf. s = pre @ sub @ suf)"
proof (induction s)
  case Nil
  then show ?case by auto
next
  case (Cons c cs)
  show ?case
  proof
    assume "js_includes (c # cs) sub"
    then consider "prefix sub (c # cs)" | "js_includes cs sub" by auto
    then show "\<exists>pre suf. c # cs = pre @ sub @ suf"
    proof cases
      case 1
      then obtain suf where "c # cs = sub @ suf" by (auto simp: prefix_def)
      then have "c # cs = [] @ sub @ suf" by simp
      then show ?thesis by blast
    next
      case 2
      with Cons.IH obtain pre suf where "cs = pre @ sub @ suf" by blast
      then have "c # cs = (c # pre) @ sub @ suf" by simp
      then show ?thesis by blast
    qed
  next
    assume "\<exists>pre suf. c # cs = pre @ sub @ suf"
    then obtain pre suf where d: "c # cs = pre @ sub @ suf" by blast
    show "js_includes (c # cs) sub"
    proof (cases pre)
      case Nil
      with d have "prefix sub (c # cs)" by (simp add: prefix_def)
      then show ?thesis by simp
    next
      case (Cons p ps)
      with d have "cs = ps @ sub @ suf" by simp
      with Cons.IH have "js_includes cs sub" by blast
      then show ?thesis by simp
    qed
  qed
qed

lemma toLowerCase_append: "toLowerCase (a @ b) = toLowerCase a @ toLowerCase b"
  by (simp add: toLowerCase_def)

lemma toLowerCase_marker_red: "toLowerCase ''tlp:red'' = ''tlp:red''"
  by (simp add: toLowerCase_def lower_char_def upper_letters_def lower_letters_def)

lemma includes_lowered_iff:
  "js_includes (toLowerCase s) (toLowerCase marker) \<longleftrightarrow> contains_ignoring_case s marker"
proof
  assume "js_includes (toLowerCase s) (toLowerCase marker)"
  then obtain a b where "toLowerCase s = a @ toLowerCase marker @ b"
    by (auto simp: js_includes_iff)
  then have "map lower_char s = a @ (toLowerCase marker @ b)"
    by (simp add: toLowerCase_def)
  then obtain pre rest where s: "s = pre @ rest" and "toLowerCase marker @ b = map lower_char rest"
    unfolding map_eq_append_conv by blast
  then have "map lower_char rest = toLowerCase marker @ b" by simp
  then obtain mid suf where r: "rest = mid @ suf" and "toLowerCase marker = map lower_char mid"
    unfolding map_eq_append_conv by blast
  then have m: "map lower_char mid = toLowerCase marker" by simp
  from s r m show "contains_ignoring_case s marker"
    unfolding contains_ignoring_case_def toLowerCase_def by blast
next
  assume "contains_ignoring_case s marker"
  then obtain pre mid suf where "s = pre @ mid @ suf" "toLowerCase mid = toLowerCase marker"
    unfolding contains_ignoring_case_def by blast
  then have "toLowerCase s = toLowerCase pre @ toLowerCase marker @ toLowerCase suf"
    by (simp add: toLowerCase_append)
  then show "js_includes (toLowerCase s) (toLowerCase marker)"
    unfolding js_includes_iff by blast
qed

lemma includes_red_iff:
  "js_includes (toLowerCase s) ''tlp:red'' \<longleftrightarrow> contains_ignoring_case s ''tlp:red''"
  using includes_lowered_iff [of s "''tlp:red''"] by (simp only: toLowerCase_marker_red)


section \<open>Facts about the tags\<close>

lemmas string_eval =
  toLowerCase_def lower_char_def upper_letters_def lower_letters_def

lemma buildTags_in_range: "set (buildTags d) \<subseteq> set buildTags_range"
  by (auto simp: buildTags_def buildTags_range_def split: if_splits)

lemma lowered_cluster_tag:
  \<open>toLowerCase network_dos_cluster_tag
     = ''misp-galaxy:mitre-attack-pattern="network denial of service - t1498"''\<close>
  by (simp add: network_dos_cluster_tag_def string_eval)

lemma lowered_volumetric_tag: \<open>toLowerCase volumetric_tag = ''ddos:type="volumetric"''\<close>
  by (simp add: volumetric_tag_def string_eval)

lemma lowered_reflection_tag: \<open>toLowerCase reflection_tag = ''ddos:type="reflection"''\<close>
  by (simp add: reflection_tag_def string_eval)

lemma lowered_application_layer_tag:
  \<open>toLowerCase application_layer_tag = ''ddos:type="application-layer"''\<close>
  by (simp add: application_layer_tag_def string_eval)

lemma lowered_tlp_tags:
  "toLowerCase ''tlp:amber'' = ''tlp:amber''"
  "toLowerCase ''tlp:green'' = ''tlp:green''"
  "toLowerCase ''tlp:white'' = ''tlp:white''"
  by (simp_all add: string_eval)

lemmas lowered_tags =
  lowered_cluster_tag lowered_volumetric_tag lowered_reflection_tag
  lowered_application_layer_tag lowered_tlp_tags

lemma buildTags_range_no_incident_type: "\<forall>t \<in> set buildTags_range. \<not> is_incident_type_marker t"
  by (simp add: buildTags_range_def is_incident_type_marker_def lowered_tags)

lemma buildTags_range_no_event_type: "\<forall>t \<in> set buildTags_range. \<not> is_event_type_marker t"
  by (simp add: buildTags_range_def is_event_type_marker_def lowered_tags)

lemma cluster_and_type_tags_not_sensitivity:
  "\<not> is_sensitivity_marker network_dos_cluster_tag" "\<not> is_sensitivity_marker volumetric_tag"
  by (simp_all add: is_sensitivity_marker_def lowered_tags)

section \<open>Facts about the numbers and the assessor\<close>

lemma Math_max_Finite: "Math_max (Finite a) (Finite b) = Finite (max a b)"
  by (simp add: Math_max_def max_def)

lemma Math_min_Finite: "Math_min (Finite a) (Finite b) = Finite (min a b)"
  by (simp add: Math_min_def min_def)

lemma js_sub_Finite: "js_sub (Finite a) (Finite b) = fl (a - b)"
  by (simp add: js_sub_def)

lemma js_div_Finite: "b \<noteq> 0 \<Longrightarrow> js_div (Finite a) (Finite b) = fl (a / b)"
  by simp

text \<open>Small integers are doubles.\<close>

lemma fl_small_integers:
  "fl 1 = Finite 1" "fl 20 = Finite 20" "fl 30 = Finite 30" "fl 40 = Finite 40"
  "fl 50 = Finite 50" "fl 60 = Finite 60" "fl 70 = Finite 70" "fl 80 = Finite 80"
  using fl_of_int [of 1] fl_of_int [of 20] fl_of_int [of 30] fl_of_int [of 40]
    fl_of_int [of 50] fl_of_int [of 60] fl_of_int [of 70] fl_of_int [of 80]
  by simp_all

text \<open>The doubles nearest to one fifth and to two fifths, and their products with 100.\<close>

lemma fl_one_fifth: "fl (1 / 5) = Finite (7205759403792794 * 2 powi (- 55))"
  by (rule fl_eqI [where e = "- 3" and q = "- 55" and m = 7205759403792794]) simp_all

lemma fl_one_fifth_times_100: "fl (7205759403792794 * 2 powi (- 55) * 100) = Finite 20"
  by (rule fl_eqI [where e = 4 and q = "- 48" and m = 5629499534213120]) simp_all

lemma fl_two_fifths: "fl (2 / 5) = Finite (7205759403792794 * 2 powi (- 54))"
  by (rule fl_eqI [where e = "- 2" and q = "- 54" and m = 7205759403792794]) simp_all

lemma fl_two_fifths_times_100: "fl (7205759403792794 * 2 powi (- 54) * 100) = Finite 40"
  by (rule fl_eqI [where e = 5 and q = "- 47" and m = 5629499534213120]) simp_all

text \<open>
  The three rounded steps of \<^verbatim>\<open>100 - (dataIssues / Math.max(totalRecords, 1)) * 100\<close>
  from the exact ratio \<open>t\<close>: for a ratio of at most 2 the result is within \<open>2 ^ - 43\<close> of
  the exact value, and for a greater ratio it is negative.
\<close>

lemma rounded_score_near:
  assumes "0 \<le> t" and "t \<le> 2"
  shows "\<exists>q1 q3. fl t = Finite q1 \<and> js_sub (Finite 100) (js_mul (Finite q1) (Finite 100)) = Finite q3
           \<and> \<bar>q3 - (100 - 100 * t)\<bar> \<le> 2 powi (- 43)"
proof -
  have "\<bar>t\<bar> \<le> 2 powi 1" using assms by simp
  from fl_abs_error [OF this] obtain q1 where q1: "fl t = Finite q1"
    and e1: "\<bar>q1 - t\<bar> \<le> 2 powi (1 - 53)" by auto
  from e1 have e1': "\<bar>q1 - t\<bar> \<le> 1 / 4503599627370496" by simp
  have "\<bar>q1 * 100\<bar> \<le> 256" using e1' assms by (simp add: abs_if split: if_splits) 
  then have "\<bar>q1 * 100\<bar> \<le> 2 powi 8" by simp
  from fl_abs_error [OF this] obtain q2 where q2: "fl (q1 * 100) = Finite q2"
    and e2: "\<bar>q2 - q1 * 100\<bar> \<le> 2 powi (8 - 53)" by auto
  from e2 have e2': "\<bar>q2 - q1 * 100\<bar> \<le> 1 / 35184372088832" by simp
  have "\<bar>100 - q2\<bar> \<le> 512" using e1' e2' assms by (simp add: abs_if split: if_splits)
  then have "\<bar>100 - q2\<bar> \<le> 2 powi 9" by simp
  from fl_abs_error [OF this] obtain q3 where q3: "fl (100 - q2) = Finite q3"
    and e3: "\<bar>q3 - (100 - q2)\<bar> \<le> 2 powi (9 - 53)" by auto
  from e3 have e3': "\<bar>q3 - (100 - q2)\<bar> \<le> 1 / 17592186044416" by simp
  have "\<bar>q3 - (100 - 100 * t)\<bar> \<le> 1 / 8796093022208"
    using e1' e2' e3' by (simp add: abs_if split: if_splits)
  then have "\<bar>q3 - (100 - 100 * t)\<bar> \<le> 2 powi (- 43)" by simp
  moreover have "js_sub (Finite 100) (js_mul (Finite q1) (Finite 100)) = Finite q3"
    by (simp add: js_sub_Finite q2 q3)
  ultimately show ?thesis using q1 by blast
qed

lemma rounded_score_negative:
  assumes "2 < t" and "t \<le> 2 ^ 53"
  shows "\<exists>q1 q3. fl t = Finite q1 \<and> js_sub (Finite 100) (js_mul (Finite q1) (Finite 100)) = Finite q3
           \<and> q3 < 0"
proof -
  have tiny: "(2::rat) powi (- 1022) \<le> 1" using powi2_le_iff [of "- 1022" 0] by simp
  have big: "(2::rat) ^ 62 \<le> 2 powi 1022" using powi2_le_iff [of 62 1022] by simp
  have u: "(2::rat) powi (- 53) = 1 / 9007199254740992" by simp
  have "2 powi (- 1022) \<le> \<bar>t\<bar>" using tiny assms(1) by linarith
  moreover have "\<bar>t\<bar> \<le> 2 powi 1022" using big assms by simp
  ultimately obtain q1 where q1: "fl t = Finite q1"
    and e1: "\<bar>q1 - t\<bar> \<le> \<bar>t\<bar> * 2 powi (- 53)" using fl_rel_error [of t] by auto
  from e1 assms have l1: "198 / 100 \<le> q1" and h1: "q1 \<le> 2 ^ 54"
    unfolding u by (simp_all add: abs_if split: if_splits)
  let ?x2 = "q1 * 100"
  have "2 powi (- 1022) \<le> \<bar>?x2\<bar>" using tiny l1 by linarith
  moreover have "\<bar>?x2\<bar> \<le> 2 powi 1022" using big l1 h1 by simp
  ultimately obtain q2 where q2: "fl ?x2 = Finite q2"
    and e2: "\<bar>q2 - ?x2\<bar> \<le> \<bar>?x2\<bar> * 2 powi (- 53)" using fl_rel_error [of ?x2] by auto
  from e2 l1 h1 have l2: "190 \<le> q2" and h2: "q2 \<le> 2 ^ 61"
    unfolding u by (simp_all add: abs_if split: if_splits)
  let ?x3 = "100 - q2"
  have "2 powi (- 1022) \<le> \<bar>?x3\<bar>" using tiny l2 by linarith
  moreover have "\<bar>?x3\<bar> \<le> 2 powi 1022" using big l2 h2 by simp
  ultimately obtain q3 where q3: "fl ?x3 = Finite q3"
    and e3: "\<bar>q3 - ?x3\<bar> \<le> \<bar>?x3\<bar> * 2 powi (- 53)" using fl_rel_error [of ?x3] by auto
  from e3 l2 have "q3 < 0"
    unfolding u by (simp add: abs_if split: if_splits)
  moreover have "js_sub (Finite 100) (js_mul (Finite q1) (Finite 100)) = Finite q3"
    by (simp add: js_sub_Finite q2 q3)
  ultimately show ?thesis using q1 by blast
qed

text \<open>
  The score before \<^verbatim>\<open>Math.round\<close>, for counters that a batch can reach: it is within
  \<open>2 ^ - 43\<close> of the specification's formula, and it lies on the same side of the two
  thresholds as the formula does.
\<close>

lemma records_as_number: "Math_max (js_of_nat n) (Finite 1) = Finite (of_nat (max n 1))"
  by (simp add: js_of_nat_def Math_max_Finite)

lemma threshold_side:
  fixes c M a b :: nat and q :: rat
  assumes M: "1 \<le> M" "M < 2 ^ 32"
    and near: "\<bar>q - max 0 (100 - 100 * (of_nat c / of_nat M))\<bar> \<le> 2 powi (- 43)"
    and ab: "1 \<le> a" "a + b = 100"
    and exact: "b * M = 100 * c \<Longrightarrow> q = of_nat a"
  shows "of_nat a < q \<longleftrightarrow> of_nat a < max 0 (100 - 100 * (of_nat c / of_nat M :: rat))"
proof -
  define rM rc ra rb :: rat where "rM = of_nat M" and "rc = of_nat c" and "ra = of_nat a" and "rb = of_nat b"
  define S where "S = max 0 (100 - 100 * (rc / rM))"
  have Mpos: "0 < rM" using M(1) by (simp add: rM_def)
  have Mle: "rM \<le> 4294967296"
  proof -
    have "(of_nat M :: rat) < of_nat (2 ^ 32)" using M(2) by (simp only: of_nat_less_iff)
    then show ?thesis by (simp add: rM_def)
  qed
  have ab': "ra + rb = 100"
  proof -
    have "(of_nat (a + b) :: rat) = of_nat 100" using ab(2) by (simp only:)
    then show ?thesis by (simp add: ra_def rb_def)
  qed
  have a1: "1 \<le> ra"
  proof -
    have "(of_nat 1 :: rat) \<le> of_nat a" using ab(1) by (simp only: of_nat_le_iff)
    then show ?thesis by (simp add: ra_def)
  qed
  from near have near': "\<bar>q - S\<bar> \<le> 1 / 8796093022208" by (simp add: S_def rc_def rM_def)
  have form: "100 - 100 * (rc / rM) = (100 * rM - 100 * rc) / rM"
    using Mpos by (simp add: field_simps)
  have split: "100 * rM = ra * rM + rb * rM" using ab' by (metis distrib_right)
  have small: "rM / 4294967296 \<le> 1" using Mle by simp
  consider "b * M = 100 * c" | "b * M < 100 * c" | "100 * c < b * M" by linarith
  then have "ra < q \<longleftrightarrow> ra < S"
  proof cases
    case 1
    then have "(of_nat (b * M) :: rat) = of_nat (100 * c)" by (simp only:)
    then have eq: "rb * rM = 100 * rc" by (simp add: rb_def rM_def rc_def)
    have "100 * rM - 100 * rc = ra * rM" using eq split by simp
    then have "(100 * rM - 100 * rc) / rM = ra" using Mpos by simp
    then have "S = ra" using form a1 by (simp add: S_def)
    moreover have "q = ra" unfolding ra_def using 1 by (rule exact)
    ultimately show ?thesis by simp
  next
    case 2
    then have "b * M + 1 \<le> 100 * c" by simp
    then have "(of_nat (b * M + 1) :: rat) \<le> of_nat (100 * c)" by (simp only: of_nat_le_iff)
    then have le: "rb * rM + 1 \<le> 100 * rc" by (simp add: rb_def rM_def rc_def)
    have "100 * rM - 100 * rc \<le> (ra - 1 / 4294967296) * rM"
      using le split small by (simp add: algebra_simps)
    then have "(100 * rM - 100 * rc) / rM \<le> ra - 1 / 4294967296"
      using Mpos by (simp add: pos_divide_le_eq)
    then have "S \<le> ra - 1 / 4294967296" using form a1 by (simp add: S_def)
    with near' show ?thesis by (simp add: abs_if split: if_splits)
  next
    case 3
    then have "100 * c + 1 \<le> b * M" by simp
    then have "(of_nat (100 * c + 1) :: rat) \<le> of_nat (b * M)" by (simp only: of_nat_le_iff)
    then have le: "100 * rc + 1 \<le> rb * rM" by (simp add: rb_def rM_def rc_def)
    have "(ra + 1 / 4294967296) * rM \<le> 100 * rM - 100 * rc"
      using le split small by (simp add: algebra_simps)
    then have "ra + 1 / 4294967296 \<le> (100 * rM - 100 * rc) / rM"
      using Mpos by (simp add: pos_le_divide_eq)
    then have "ra + 1 / 4294967296 \<le> S" using form by (simp add: S_def)
    with near' show ?thesis by (simp add: abs_if split: if_splits)
  qed
  then show ?thesis by (simp add: ra_def S_def rc_def rM_def)
qed


lemma qualityScore_rounded:
  assumes c: "c < 2 ^ 53" and n: "n < 2 ^ 32"
  shows "\<exists>q. Math_max (Finite 0)
               (js_sub (Finite 100)
                  (js_mul (js_div (js_of_nat c) (Math_max (js_of_nat n) (Finite 1))) (Finite 100)))
             = Finite q
           \<and> \<bar>q - spec_qualityScore c n\<bar> \<le> 2 powi (- 43)
           \<and> (80 < q \<longleftrightarrow> 80 < spec_qualityScore c n)
           \<and> (60 < q \<longleftrightarrow> 60 < spec_qualityScore c n)"
proof -
  define M where "M = max n 1"
  define t :: rat where "t = of_nat c / of_nat M"
  have M1: "1 \<le> M" and M32: "M < 2 ^ 32" using n by (simp_all add: M_def)
  have Mpos: "(0::rat) < of_nat M" using M1 by simp
  have spec: "spec_qualityScore c n = max 0 (100 - 100 * (of_nat c / of_nat M))"
    by (simp add: spec_qualityScore_def M_def)
  have t0: "0 \<le> t" by (simp add: t_def)
  have tc: "t \<le> of_nat c"
  proof -
    have "(of_nat 1 :: rat) \<le> of_nat M" using M1 by (simp only: of_nat_le_iff)
    then have "(1::rat) \<le> of_nat M" by simp
    then have "of_nat c / of_nat M \<le> (of_nat c :: rat) / 1"
      by (intro divide_left_mono) simp_all
    then show ?thesis by (simp add: t_def)
  qed
  have c53: "(of_nat c :: rat) \<le> 2 ^ 53"
  proof -
    have "(of_nat c :: rat) < of_nat (2 ^ 53)" using c by (simp only: of_nat_less_iff)
    then show ?thesis by simp
  qed
  have ratio: "js_div (js_of_nat c) (Math_max (js_of_nat n) (Finite 1)) = fl t"
  proof -
    have "Math_max (js_of_nat n) (Finite 1) = Finite (of_nat M)"
      by (simp only: records_as_number M_def)
    moreover have "js_div (Finite (of_nat c)) (Finite (of_nat M)) = fl (of_nat c / of_nat M)"
      using Mpos by (intro js_div_Finite) simp
    ultimately show ?thesis by (simp only: js_of_nat_def t_def)
  qed
  have "\<exists>q1 q. fl t = Finite q1
          \<and> Math_max (Finite 0) (js_sub (Finite 100) (js_mul (Finite q1) (Finite 100))) = Finite q
          \<and> \<bar>q - max 0 (100 - 100 * t)\<bar> \<le> 2 powi (- 43)"
  proof (cases "t \<le> 2")
    case True
    from rounded_score_near [OF t0 True] obtain q1 q3 where q1: "fl t = Finite q1"
      and q3: "js_sub (Finite 100) (js_mul (Finite q1) (Finite 100)) = Finite q3"
      and e: "\<bar>q3 - (100 - 100 * t)\<bar> \<le> 2 powi (- 43)" by blast
    have "\<bar>max 0 q3 - max 0 (100 - 100 * t)\<bar> \<le> \<bar>q3 - (100 - 100 * t)\<bar>" by linarith
    with e have "\<bar>max 0 q3 - max 0 (100 - 100 * t)\<bar> \<le> 2 powi (- 43)" by linarith
    then show ?thesis using q1 q3 by (auto simp: Math_max_Finite)
  next
    case False
    then have t2: "2 < t" by simp
    have "t \<le> 2 ^ 53" using tc c53 by linarith
    from rounded_score_negative [OF t2 this] obtain q1 q3 where q1: "fl t = Finite q1"
      and q3: "js_sub (Finite 100) (js_mul (Finite q1) (Finite 100)) = Finite q3"
      and neg: "q3 < 0" by blast
    have "max 0 q3 = 0" using neg by simp
    moreover have "max 0 (100 - 100 * t) = 0" using t2 by simp
    ultimately have "\<bar>max 0 q3 - max 0 (100 - 100 * t)\<bar> \<le> 2 powi (- 43)" by simp
    then show ?thesis using q1 q3 by (auto simp: Math_max_Finite)
  qed
  then obtain q1 q where q1: "fl t = Finite q1"
    and q: "Math_max (Finite 0) (js_sub (Finite 100) (js_mul (Finite q1) (Finite 100))) = Finite q"
    and near: "\<bar>q - max 0 (100 - 100 * (of_nat c / of_nat M))\<bar> \<le> 2 powi (- 43)"
    unfolding t_def by blast
  have whole: "Math_max (Finite 0)
               (js_sub (Finite 100)
                  (js_mul (js_div (js_of_nat c) (Math_max (js_of_nat n) (Finite 1))) (Finite 100)))
             = Finite q"
    by (simp only: ratio q1 q)
  have at80: "q = of_nat 80" if "20 * M = 100 * c"
  proof -
    from that have "(of_nat (20 * M) :: rat) = of_nat (100 * c)" by (simp only:)
    then have "20 * (of_nat M :: rat) = 100 * of_nat c" by simp
    then have "t = 1 / 5" using Mpos by (simp add: t_def field_simps)
    with q1 have "q1 = 7205759403792794 * 2 powi (- 55)" by (simp only: fl_one_fifth js_number.inject)
    with q show ?thesis
      by (simp only: js_mul.simps fl_one_fifth_times_100 js_sub_Finite)
         (simp add: fl_small_integers Math_max_Finite)
  qed
  have at60: "q = of_nat 60" if "40 * M = 100 * c"
  proof -
    from that have "(of_nat (40 * M) :: rat) = of_nat (100 * c)" by (simp only:)
    then have "40 * (of_nat M :: rat) = 100 * of_nat c" by simp
    then have "t = 2 / 5" using Mpos by (simp add: t_def field_simps)
    with q1 have "q1 = 7205759403792794 * 2 powi (- 54)" by (simp only: fl_two_fifths js_number.inject)
    with q show ?thesis
      by (simp only: js_mul.simps fl_two_fifths_times_100 js_sub_Finite)
         (simp add: fl_small_integers Math_max_Finite)
  qed
  have s80: "of_nat 80 < q \<longleftrightarrow> of_nat 80 < max 0 (100 - 100 * (of_nat c / of_nat M :: rat))"
    by (rule threshold_side [where b = 20, OF M1 M32 near _ _ at80]) simp_all
  have s60: "of_nat 60 < q \<longleftrightarrow> of_nat 60 < max 0 (100 - 100 * (of_nat c / of_nat M :: rat))"
    by (rule threshold_side [where b = 40, OF M1 M32 near _ _ at60]) simp_all
  from s80 have t80: "80 < q \<longleftrightarrow> 80 < spec_qualityScore c n" by (simp add: spec)
  from s60 have t60: "60 < q \<longleftrightarrow> 60 < spec_qualityScore c n" by (simp add: spec)
  from near have "\<bar>q - spec_qualityScore c n\<bar> \<le> 2 powi (- 43)" by (simp only: spec)
  with whole t80 t60 show ?thesis by blast
qed

lemma assessment_correctionsCount: "correctionsCount (assessment c n) = c"
  by (simp add: assessment_def Let_def)

lemma assessment_score:
  assumes "c < 2 ^ 53" and "n < 2 ^ 32"
  shows "\<exists>k. dataQualityScore (assessment c n) = Finite (of_int k)
           \<and> \<lfloor>spec_qualityScore c n + 1 / 2 - 2 powi (- 43)\<rfloor> \<le> k
           \<and> k \<le> \<lfloor>spec_qualityScore c n + 1 / 2 + 2 powi (- 43)\<rfloor>"
proof -
  from qualityScore_rounded [OF assms] obtain q where
    q: "Math_max (Finite 0)
               (js_sub (Finite 100)
                  (js_mul (js_div (js_of_nat c) (Math_max (js_of_nat n) (Finite 1))) (Finite 100)))
             = Finite q"
    and near: "\<bar>q - spec_qualityScore c n\<bar> \<le> 2 powi (- 43)" by blast
  have score: "dataQualityScore (assessment c n) = Finite (of_int \<lfloor>q + 1 / 2\<rfloor>)"
    by (simp add: assessment_def Let_def q)
  have "spec_qualityScore c n + 1 / 2 - 2 powi (- 43) \<le> q + 1 / 2" using near by linarith
  then have lo: "\<lfloor>spec_qualityScore c n + 1 / 2 - 2 powi (- 43)\<rfloor> \<le> \<lfloor>q + 1 / 2\<rfloor>"
    by (rule floor_mono)
  have "q + 1 / 2 \<le> spec_qualityScore c n + 1 / 2 + 2 powi (- 43)" using near by linarith
  then have hi: "\<lfloor>q + 1 / 2\<rfloor> \<le> \<lfloor>spec_qualityScore c n + 1 / 2 + 2 powi (- 43)\<rfloor>"
    by (rule floor_mono)
  from score lo hi show ?thesis by blast
qed

lemma assessment_confidenceLevel:
  assumes "c < 2 ^ 53" and "n < 2 ^ 32"
  shows "confidenceLevel (assessment c n) =
           (if spec_qualityScore c n > 80 then High
            else if spec_qualityScore c n > 60 then Medium else Low)"
proof -
  from qualityScore_rounded [OF assms] obtain q where
    q: "Math_max (Finite 0)
               (js_sub (Finite 100)
                  (js_mul (js_div (js_of_nat c) (Math_max (js_of_nat n) (Finite 1))) (Finite 100)))
             = Finite q"
    and t80: "80 < q \<longleftrightarrow> 80 < spec_qualityScore c n"
    and t60: "60 < q \<longleftrightarrow> 60 < spec_qualityScore c n" by blast
  show ?thesis
    by (simp add: assessment_def Let_def q t80 t60)
qed

text \<open>
  The steps for 109 issues in 200 records: the product is just above 54.5, the difference
  just below 45.5, and \<^verbatim>\<open>Math.round\<close> gives 45 where the exact value 45.5 rounds to 46.
\<close>

lemma fl_109_200: "fl (109 / 200) = Finite (4908923593833841 * 2 powi (- 53))"
  by (rule fl_eqI [where e = "- 1" and q = "- 53" and m = 4908923593833841]) simp_all

lemma fl_109_200_times_100:
  "fl (4908923593833841 * 2 powi (- 53) * 100) = Finite (7670193115365377 * 2 powi (- 47))"
  by (rule fl_eqI [where e = 5 and q = "- 47" and m = 7670193115365377]) simp_all

lemma fl_109_200_difference:
  "fl (100 - 7670193115365377 * 2 powi (- 47)) = Finite (6403555720167423 * 2 powi (- 47))"
  by (rule fl_eqI [where e = 5 and q = "- 47" and m = 6403555720167423]) simp_all

lemma assessment_109_200: "dataQualityScore (assessment 109 200) = Finite 45"
proof -
  have ratio: "js_div (js_of_nat 109) (Math_max (js_of_nat 200) (Finite 1))
      = Finite (4908923593833841 * 2 powi (- 53))"
    using fl_109_200 by (simp add: js_of_nat_def Math_max_Finite)
  have q: "Math_max (Finite 0)
        (js_sub (Finite 100)
           (js_mul (js_div (js_of_nat 109) (Math_max (js_of_nat 200) (Finite 1))) (Finite 100)))
      = Finite (6403555720167423 * 2 powi (- 47))"
    unfolding ratio
    by (simp only: js_mul.simps fl_109_200_times_100 js_sub_Finite fl_109_200_difference
        Math_max_Finite) simp
  have "\<lfloor>(6403555720167423 * 2 powi (- 47) :: rat) + 1 / 2\<rfloor> = 45"
    by (rule floor_unique) simp_all
  then show ?thesis
    by (simp add: assessment_def Let_def q)
qed

lemma forEach_event_sum:
  "None \<notin> set es \<Longrightarrow>
   forEach_event a es = Some (a + sum_list (map (\<lambda>e. json_event_issues (the e)) es))"
proof (induction a es rule: forEach_event.induct)
  case (1 dataIssues)
  then show ?case by simp
next
  case (2 dataIssues rest)
  then show ?case by simp
next
  case (3 dataIssues event rest)
  then show ?case by (simp add: add.assoc)
qed

lemma json_not_csv:
  assumes "js_endsWith s ''.json''"
  shows "\<not> js_endsWith s ''.csv''"
proof
  assume "js_endsWith s ''.csv''"
  then obtain a where a: "s = a @ ''.csv''"
    by (auto simp: js_endsWith_def suffix_def)
  from assms obtain b where b: "s = b @ ''.json''"
    by (auto simp: js_endsWith_def suffix_def)
  from a have "last s = CHR ''v''" by simp
  moreover from b have "last s = CHR ''n''" by simp
  ultimately show False by simp
qed

lemma json_batch_counters:
  assumes "js_endsWith (toLowerCase (file_name f)) ''.json''" and "None \<notin> set es"
  shows "batch_counters (\<lambda>text. Some (JsonArray es)) f
         = Some (sum_list (map (\<lambda>e. json_event_issues (the e)) es), length es)"
  using json_not_csv [OF assms(1)] assms(1) forEach_event_sum [OF assms(2), of 0]
  by (simp add: batch_counters_def)




section \<open>What holds beside the failing inputs\<close>

text \<open>
  A severity that is none of the four known words and no name of an inherited property
  maps to 4.
\<close>

lemma mapSeverityToThreatLevel_other:
  assumes "sev \<notin> set [''critical'', ''high'', ''medium'', ''low'']"
    and "sev \<notin> set Object_prototype_properties"
  shows "mapSeverityToThreatLevel sev = JString ''4''"
  using assms by (simp add: mapSeverityToThreatLevel_def js_get_def)

text \<open>
  Every event that the test of \<open>filterEventsByTLP\<close> excludes is a maximally sensitive event
  for \<open>isTlpRedEvent\<close> too.
\<close>

lemma filter_test_implies_isTlpRedEvent:
  "list_ex (\<lambda>tag. js_includes (toLowerCase (name tag)) ''tlp:red'') (tags event)
   \<Longrightarrow> isTlpRedEvent event"
  by (auto simp: isTlpRedEvent_def list_ex_iff)

text \<open>
  The header test looks for each required name anywhere in the header line: a header whose
  attacker column has another name that contains \<^verbatim>\<open>attacker_ips\<close> is accepted.
\<close>

lemma header_test_is_substring_test:
  "validateCSVContent
     (''title,description,old_attacker_ips_v2,victim_ips,attack_type,severity'' @ [CHR 0x0A]
      @ ''T,D,1.2.3.4,5.6.7.8,direct-flood,high'') = Inr ()"
  by code_simp

section \<open>Classification Filter: results\<close>

text \<open>
  C2. With the exclusion flag left at its default, \<open>filterEventsByTLP\<close> returns, in the
  input's order, exactly the events none of whose tag names contains \<^verbatim>\<open>tlp:red\<close> with
  letter case ignored: an event with such a tag is dropped, every other event, also one
  with no sensitivity tag or no tag at all, is kept.
\<close>

theorem filterEventsByTLP_default_exact:
  "filterEventsByTLP events None = filter (\<lambda>event. \<not> carries_marker ''tlp:red'' event) events
   \<and> filterEventsByTLP events (Some True) = filterEventsByTLP events None"
  by (simp add: filterEventsByTLP_def carries_marker_def list_ex_iff includes_red_iff)


text \<open>
  C10. The two tests do not agree: an event whose only tag is named \<^verbatim>\<open>tlp-red\<close> is a
  maximally sensitive event for \<open>isTlpRedEvent\<close>, so \<open>getEvents\<close> drops it, while
  \<open>filterEventsByTLP\<close> keeps it.
\<close>

theorem tlp_red_tests_disagree:
  "isTlpRedEvent \<lparr>event_id = ''1'', info = ''x'', date = ''2025-01-01'', threat_level = TL1,
       published = False, tags = [\<lparr>name = ''tlp-red'', colour = ''#cccccc''\<rparr>]\<rparr>
   \<and> getEvents_filter [\<lparr>event_id = ''1'', info = ''x'', date = ''2025-01-01'', threat_level = TL1,
       published = False, tags = [\<lparr>name = ''tlp-red'', colour = ''#cccccc''\<rparr>]\<rparr>] None = []
   \<and> filterEventsByTLP [\<lparr>event_id = ''1'', info = ''x'', date = ''2025-01-01'', threat_level = TL1,
       published = False, tags = [\<lparr>name = ''tlp-red'', colour = ''#cccccc''\<rparr>]\<rparr>] None
     = [\<lparr>event_id = ''1'', info = ''x'', date = ''2025-01-01'', threat_level = TL1,
       published = False, tags = [\<lparr>name = ''tlp-red'', colour = ''#cccccc''\<rparr>]\<rparr>]"
  by (simp add: isTlpRedEvent_def getEvents_filter_def filterEventsByTLP_def toLowerCase_def
      lower_char_def upper_letters_def lower_letters_def)


section \<open>Compliance Compiler: results\<close>

text \<open>
  C1. Whatever the record, \<open>buildTags\<close> puts the Network-DoS cluster tag (T1498) first, and
  never an incident-type marker nor an event-type marker: the tags come from a fixed set of
  seven strings, none of which is one. A sensitivity marker is there only when the severity
  is one of the four known values; the example row with severity \<^verbatim>\<open>unknown\<close> gets the
  cluster tag and the attack-type tag and nothing else.
\<close>

theorem buildTags_mandatory_tags_absent:
  "hd (buildTags d) = network_dos_cluster_tag
   \<and> \<not> list_ex is_incident_type_marker (buildTags d)
   \<and> \<not> list_ex is_event_type_marker (buildTags d)
   \<and> buildTags example_row = [network_dos_cluster_tag, volumetric_tag, ''tlp:amber'']
   \<and> buildTags (example_row\<lparr>severity := ''unknown''\<rparr>) = [network_dos_cluster_tag, volumetric_tag]
   \<and> \<not> list_ex is_sensitivity_marker (buildTags (example_row\<lparr>severity := ''unknown''\<rparr>))"
proof -
  have hd: "hd (buildTags d) = network_dos_cluster_tag"
    by (simp add: buildTags_def)
  have sub: "set (buildTags d) \<subseteq> set buildTags_range"
    by (rule buildTags_in_range)
  have inc: "\<not> list_ex is_incident_type_marker (buildTags d)"
    using sub buildTags_range_no_incident_type by (auto simp: list_ex_iff)
  have evt: "\<not> list_ex is_event_type_marker (buildTags d)"
    using sub buildTags_range_no_event_type by (auto simp: list_ex_iff)
  have ex1: "buildTags example_row = [network_dos_cluster_tag, volumetric_tag, ''tlp:amber'']"
    by (simp add: buildTags_def example_row_def)
  have ex2: "buildTags (example_row\<lparr>severity := ''unknown''\<rparr>)
      = [network_dos_cluster_tag, volumetric_tag]"
    by (simp add: buildTags_def example_row_def)
  have sens: "\<not> list_ex is_sensitivity_marker (buildTags (example_row\<lparr>severity := ''unknown''\<rparr>))"
    unfolding ex2 using cluster_and_type_tags_not_sensitivity by simp
  from hd inc evt ex1 ex2 sens show ?thesis by blast
qed

text \<open>
  C3. \<open>mapSeverityToThreatLevel\<close> returns 1 for critical and for high, 2 for medium, 3 for
  low and 4 for an unknown word such as \<^verbatim>\<open>severe\<close> or the empty string. For the string
  \<^verbatim>\<open>constructor\<close> the lookup finds the property every object inherits, which is truthy, and
  the function returns that built-in function instead of 4; likewise for \<^verbatim>\<open>toString\<close>.
\<close>

theorem mapSeverityToThreatLevel_inherited_key:
  "mapSeverityToThreatLevel ''critical'' = JString ''1''
   \<and> mapSeverityToThreatLevel ''high'' = JString ''1''
   \<and> mapSeverityToThreatLevel ''medium'' = JString ''2''
   \<and> mapSeverityToThreatLevel ''low'' = JString ''3''
   \<and> mapSeverityToThreatLevel ''severe'' = JString ''4''
   \<and> mapSeverityToThreatLevel [] = JString ''4''
   \<and> mapSeverityToThreatLevel ''constructor'' = JInherited ''constructor''
   \<and> mapSeverityToThreatLevel ''toString'' = JInherited ''toString''
   \<and> mapSeverityToThreatLevel ''constructor'' \<noteq> JString ''4''"
  by (simp add: mapSeverityToThreatLevel_def js_get_def Object_prototype_properties_def)

text \<open>
  C4, as the specification states it, fails: the example row has a description, so its
  event has four attributes, not three.
\<close>

theorem example_row_three_attributes_counterexample:
  "length (Attribute (createDDoSEvent_mispEvent example_row)) \<noteq> 3"
  by (simp add: createDDoSEvent_mispEvent_def buildAttributes_def example_row_def)

text \<open>
  C4, amended. The event compiled from the example row has threat level 1, its tags include
  the volumetric attack-type tag and \<^verbatim>\<open>tlp:amber\<close>, and it has exactly four attributes,
  in this order: the source address, the destination address, the port, and a comment
  attribute holding the description.
\<close>

theorem example_row_compiled:
  "threat_level_id (createDDoSEvent_mispEvent example_row) = JString ''1''
   \<and> volumetric_tag \<in> set (Tag (createDDoSEvent_mispEvent example_row))
   \<and> ''tlp:amber'' \<in> set (Tag (createDDoSEvent_mispEvent example_row))
   \<and> length (Attribute (createDDoSEvent_mispEvent example_row)) = 4
   \<and> Attribute (createDDoSEvent_mispEvent example_row) =
       [\<lparr>attr_category = ''Network activity'', attr_type = ''ip-src'', attr_value = ''1.2.3.4'',
          attr_to_ids = True, attr_comment = Some ''DDoS attack source IP''\<rparr>,
        \<lparr>attr_category = ''Network activity'', attr_type = ''ip-dst'', attr_value = ''5.6.7.8'',
          attr_to_ids = True, attr_comment = Some ''DDoS attack target IP''\<rparr>,
        \<lparr>attr_category = ''Network activity'', attr_type = ''port'', attr_value = ''80'',
          attr_to_ids = False, attr_comment = Some ''DDoS attack target port''\<rparr>,
        \<lparr>attr_category = ''Other'', attr_type = ''comment'', attr_value = ''D'',
          attr_to_ids = False, attr_comment = None\<rparr>]"
  by (simp add: createDDoSEvent_mispEvent_def buildAttributes_def buildTags_def example_row_def
      mapSeverityToThreatLevel_def js_get_def volumetric_tag_def)


section \<open>Metrics Aggregator: results\<close>

text \<open>
  C5. For every event collection, the four threat-level buckets of \<open>calculateMetrics\<close> add
  up to \<open>totalEvents\<close>, which is the number of events given.
\<close>

theorem threat_level_buckets_sum:
  "high (eventsByThreatLevel (calculateMetrics events))
     + medium (eventsByThreatLevel (calculateMetrics events))
     + low (eventsByThreatLevel (calculateMetrics events))
     + undefined' (eventsByThreatLevel (calculateMetrics events))
   = totalEvents (calculateMetrics events)
   \<and> totalEvents (calculateMetrics events) = length events"
proof -
  have "length (filter (\<lambda>e. threat_level e = TL1) events)
      + length (filter (\<lambda>e. threat_level e = TL2) events)
      + length (filter (\<lambda>e. threat_level e = TL3) events)
      + length (filter (\<lambda>e. threat_level e = TL4) events) = length events"
  proof (induction events)
    case Nil
    then show ?case by simp
  next
    case (Cons e es)
    then show ?case by (cases "threat_level e") simp_all
  qed
  then show ?thesis by (simp add: calculateMetrics_def)
qed

text \<open>
  C6. For the empty event collection every ratio of \<open>calculateSecurityPosture\<close> is
  \<^verbatim>\<open>0/0\<close>, and the function returns \<^verbatim>\<open>NaN\<close>, which is no number of the interval from 0
  to 100. For a collection of one unpublished high-threat event the score is 50.
\<close>

theorem calculateSecurityPosture_empty_is_NaN:
  "calculateSecurityPosture (calculateMetrics []) = NaN
   \<and> calculateSecurityPosture (calculateMetrics
        [\<lparr>event_id = ''1'', info = ''x'', date = ''2025-01-01'', threat_level = TL1,
          published = False, tags = [\<lparr>name = ''tlp:green'', colour = ''#cccccc''\<rparr>]\<rparr>]) = Finite 50"
  by (simp add: calculateSecurityPosture_def calculateMetrics_def calculateTlpDistribution_def
      js_of_nat_def js_sub_def js_infinity_of_sign_def Math_max_def Math_min_def count_up_def
      fl_small_integers
      Object_prototype_properties_def toUpperCase_def upper_char_def string_eval)


section \<open>Heuristic Quality Assessor: results\<close>

text \<open>
  C7, as the specification states it, fails: the score the assessor returns is rounded to
  an integer. One issue in a batch of three gives 67, not \<open>200/3\<close>. The confidence level
  is taken from the value before rounding: eight issues in a batch of 41 give the score 80
  with confidence high. And the value before rounding is computed in doubles: 109 issues in
  200 records give 45, where the formula's value is 45.5.
\<close>

theorem qualityScore_formula_counterexample:
  "correctionsCount (preValidateFileWithAI batch_of_three json_file) = 1
   \<and> dataQualityScore (preValidateFileWithAI batch_of_three json_file) = Finite 67
   \<and> dataQualityScore (preValidateFileWithAI batch_of_three json_file)
       \<noteq> Finite (spec_qualityScore 1 3)
   \<and> dataQualityScore (assessment 8 41) = Finite 80
   \<and> confidenceLevel (assessment 8 41) = High
   \<and> dataQualityScore (assessment 109 200) = Finite 45
   \<and> spec_qualityScore 109 200 = 91 / 2"
proof -
  have counters: "batch_counters batch_of_three json_file = Some (1, 3)"
    by code_simp
  have result: "preValidateFileWithAI batch_of_three json_file = assessment 1 3"
    by (simp add: preValidateFileWithAI_def counters)
  have s3: "spec_qualityScore 1 3 = 200 / 3"
    by (simp add: spec_qualityScore_def)
  have s41: "spec_qualityScore 8 41 = 3300 / 41"
    by (simp add: spec_qualityScore_def)
  have s200: "spec_qualityScore 109 200 = 91 / 2"
    by (simp add: spec_qualityScore_def)
  have lo3: "\<lfloor>(200 / 3 :: rat) + 1 / 2 - 2 powi (- 43)\<rfloor> = 67"
    by (rule floor_unique) simp_all
  have hi3: "\<lfloor>(200 / 3 :: rat) + 1 / 2 + 2 powi (- 43)\<rfloor> = 67"
    by (rule floor_unique) simp_all
  have lo41: "\<lfloor>(3300 / 41 :: rat) + 1 / 2 - 2 powi (- 43)\<rfloor> = 80"
    by (rule floor_unique) simp_all
  have hi41: "\<lfloor>(3300 / 41 :: rat) + 1 / 2 + 2 powi (- 43)\<rfloor> = 80"
    by (rule floor_unique) simp_all
  have p1: "(1::nat) < 2 ^ 53" and p3: "(3::nat) < 2 ^ 32" by simp_all
  have p8: "(8::nat) < 2 ^ 53" and p41: "(41::nat) < 2 ^ 32" by simp_all
  from assessment_score [OF p1 p3, unfolded s3 lo3 hi3] obtain k where
    k: "dataQualityScore (assessment 1 3) = Finite (of_int k)" and "67 \<le> k" and "k \<le> 67"
    by blast
  then have "k = 67" by linarith
  with k have score3: "dataQualityScore (assessment 1 3) = Finite 67"
    by simp
  from assessment_score [OF p8 p41, unfolded s41 lo41 hi41] obtain k' where
    k': "dataQualityScore (assessment 8 41) = Finite (of_int k')" and "80 \<le> k'" and "k' \<le> 80"
    by blast
  then have "k' = 80" by linarith
  with k' have score41: "dataQualityScore (assessment 8 41) = Finite 80"
    by simp
  have conf41: "confidenceLevel (assessment 8 41) = High"
    using assessment_confidenceLevel [OF p8 p41, unfolded s41] by simp
  have c1: "correctionsCount (preValidateFileWithAI batch_of_three json_file) = 1"
    by (simp add: result assessment_correctionsCount)
  have c2: "dataQualityScore (preValidateFileWithAI batch_of_three json_file) = Finite 67"
    unfolding result by (rule score3)
  have c3: "dataQualityScore (preValidateFileWithAI batch_of_three json_file)
      \<noteq> Finite (spec_qualityScore 1 3)"
    unfolding c2 s3 by simp
  from c1 c2 c3 score41 conf41 assessment_109_200 s200 show ?thesis
    by blast
qed

text \<open>
  C7, amended. For every batch the assessor reads without an exception, of fewer than
  \<open>2 ^ 32\<close> records and fewer than \<open>2 ^ 53\<close> issues (every JavaScript array and string is
  that small), the corrections count is the number of issues counted, and the score
  returned is an integer: \<^verbatim>\<open>Math.round\<close> of the double-precision value of
  \<open>max(0, 100 - (correctionsCount / max(batchSize, 1)) * 100)\<close>. It is the integer nearest
  to the exact value of the specification's formula, a half rounded up, except that either
  neighbouring integer may be returned when the exact value is within \<open>2 ^ - 43\<close> of a
  half. The confidence level is high when the exact value of the formula is greater than
  80, medium when it is greater than 60, and low otherwise. When reading the batch throws
  (a text that is no JSON, a \<^verbatim>\<open>null\<close> element), the result is no correction, the score
  0 and the confidence low.
\<close>

theorem preValidate_score_rounded:
  "(batch_counters JSON_parse file = Some (c, n) \<and> c < 2 ^ 53 \<and> n < 2 ^ 32 \<longrightarrow>
      correctionsCount (preValidateFileWithAI JSON_parse file) = c
      \<and> (\<exists>k. dataQualityScore (preValidateFileWithAI JSON_parse file) = Finite (of_int k)
             \<and> \<lfloor>spec_qualityScore c n + 1 / 2 - 2 powi (- 43)\<rfloor> \<le> k
             \<and> k \<le> \<lfloor>spec_qualityScore c n + 1 / 2 + 2 powi (- 43)\<rfloor>)
      \<and> confidenceLevel (preValidateFileWithAI JSON_parse file)
          = (if spec_qualityScore c n > 80 then High
             else if spec_qualityScore c n > 60 then Medium else Low))
   \<and> (batch_counters JSON_parse file = None \<longrightarrow>
        correctionsCount (preValidateFileWithAI JSON_parse file) = 0
        \<and> dataQualityScore (preValidateFileWithAI JSON_parse file) = Finite 0
        \<and> confidenceLevel (preValidateFileWithAI JSON_parse file) = Low)"
proof (intro conjI impI)
  assume a: "batch_counters JSON_parse file = Some (c, n) \<and> c < 2 ^ 53 \<and> n < 2 ^ 32"
  then have r: "preValidateFileWithAI JSON_parse file = assessment c n"
    by (simp add: preValidateFileWithAI_def)
  from a have c: "c < 2 ^ 53" and n: "n < 2 ^ 32" by simp_all
  show "correctionsCount (preValidateFileWithAI JSON_parse file) = c"
    by (simp only: r assessment_correctionsCount)
  show "\<exists>k. dataQualityScore (preValidateFileWithAI JSON_parse file) = Finite (of_int k)
             \<and> \<lfloor>spec_qualityScore c n + 1 / 2 - 2 powi (- 43)\<rfloor> \<le> k
             \<and> k \<le> \<lfloor>spec_qualityScore c n + 1 / 2 + 2 powi (- 43)\<rfloor>"
    unfolding r using c n by (rule assessment_score)
  show "confidenceLevel (preValidateFileWithAI JSON_parse file)
          = (if spec_qualityScore c n > 80 then High
             else if spec_qualityScore c n > 60 then Medium else Low)"
    unfolding r using c n by (rule assessment_confidenceLevel)
next
  assume "batch_counters JSON_parse file = None"
  then have r: "preValidateFileWithAI JSON_parse file = unable_to_analyze"
    by (simp add: preValidateFileWithAI_def)
  show "correctionsCount (preValidateFileWithAI JSON_parse file) = 0"
    by (simp add: r unable_to_analyze_def)
  show "dataQualityScore (preValidateFileWithAI JSON_parse file) = Finite 0"
    by (simp add: r unable_to_analyze_def)
  show "confidenceLevel (preValidateFileWithAI JSON_parse file) = Low"
    by (simp add: r unable_to_analyze_def)
qed

theorem preValidate_score_rounded_witness:
  "batch_counters batch_of_three json_file = Some (1, 3) \<and> (1::nat) < 2 ^ 53 \<and> (3::nat) < 2 ^ 32
   \<and> correctionsCount (preValidateFileWithAI batch_of_three json_file) = 1
   \<and> dataQualityScore (preValidateFileWithAI batch_of_three json_file) = Finite 67
   \<and> confidenceLevel (preValidateFileWithAI batch_of_three json_file) = Medium
   \<and> batch_counters batch_with_null json_file = None
   \<and> correctionsCount (preValidateFileWithAI batch_with_null json_file) = 0
   \<and> dataQualityScore (preValidateFileWithAI batch_with_null json_file) = Finite 0
   \<and> confidenceLevel (preValidateFileWithAI batch_with_null json_file) = Low"
proof -
  have counters: "batch_counters batch_of_three json_file = Some (1, 3)"
    by code_simp
  have thrown: "batch_counters batch_with_null json_file = None"
    by code_simp
  have s3: "spec_qualityScore 1 3 = 200 / 3"
    by (simp add: spec_qualityScore_def)
  have lo3: "\<lfloor>(200 / 3 :: rat) + 1 / 2 - 2 powi (- 43)\<rfloor> = 67"
    by (rule floor_unique) simp_all
  have hi3: "\<lfloor>(200 / 3 :: rat) + 1 / 2 + 2 powi (- 43)\<rfloor> = 67"
    by (rule floor_unique) simp_all
  have p1: "(1::nat) < 2 ^ 53" and p3: "(3::nat) < 2 ^ 32" by simp_all
  from preValidate_score_rounded [of batch_of_three json_file 1 3] counters p1 p3
  have first: "correctionsCount (preValidateFileWithAI batch_of_three json_file) = 1
      \<and> (\<exists>k. dataQualityScore (preValidateFileWithAI batch_of_three json_file) = Finite (of_int k)
             \<and> \<lfloor>spec_qualityScore 1 3 + 1 / 2 - 2 powi (- 43)\<rfloor> \<le> k
             \<and> k \<le> \<lfloor>spec_qualityScore 1 3 + 1 / 2 + 2 powi (- 43)\<rfloor>)
      \<and> confidenceLevel (preValidateFileWithAI batch_of_three json_file)
          = (if spec_qualityScore 1 3 > 80 then High
             else if spec_qualityScore 1 3 > 60 then Medium else Low)"
    by blast
  from first [unfolded s3 lo3 hi3] obtain k where
    k: "dataQualityScore (preValidateFileWithAI batch_of_three json_file) = Finite (of_int k)"
    and "67 \<le> k" and "k \<le> 67" by blast
  then have "k = 67" by linarith
  with k have score: "dataQualityScore (preValidateFileWithAI batch_of_three json_file) = Finite 67"
    by simp
  from first [unfolded s3] have conf:
    "confidenceLevel (preValidateFileWithAI batch_of_three json_file) = Medium"
    by simp
  from first have corr: "correctionsCount (preValidateFileWithAI batch_of_three json_file) = 1"
    by blast
  from preValidate_score_rounded [of batch_with_null json_file 0 0] thrown
  have second: "correctionsCount (preValidateFileWithAI batch_with_null json_file) = 0
      \<and> dataQualityScore (preValidateFileWithAI batch_with_null json_file) = Finite 0
      \<and> confidenceLevel (preValidateFileWithAI batch_with_null json_file) = Low"
    by simp
  from counters thrown corr score conf second show ?thesis by simp
qed

text \<open>
  C8, as the specification states it, fails: a record with an 8-character title, an empty
  attacker list and no severity adds 3, not 2.
\<close>

theorem short_title_adds_two_counterexample:
  "json_event_issues \<lparr>ev_title = Some ''abcdefgh'', ev_attacker_ips = Some [], ev_severity = None\<rparr> = 3
   \<and> correctionsCount (preValidateFileWithAI
        (\<lambda>text. Some (JsonArray
           [Some \<lparr>ev_title = Some ''abcdefgh'', ev_attacker_ips = Some [], ev_severity = None\<rparr>]))
        json_file) = 3"
proof -
  have issues: "json_event_issues
      \<lparr>ev_title = Some ''abcdefgh'', ev_attacker_ips = Some [], ev_severity = None\<rparr> = 3"
    by (simp add: json_event_issues_def)
  have counters: "batch_counters
      (\<lambda>text. Some (JsonArray
         [Some \<lparr>ev_title = Some ''abcdefgh'', ev_attacker_ips = Some [], ev_severity = None\<rparr>]))
      json_file = Some (3, 1)"
    by code_simp
  show ?thesis
    using issues by (simp add: preValidateFileWithAI_def counters assessment_correctionsCount)
qed

text \<open>
  C8, amended. A record of a JSON batch whose title has exactly 8 characters and whose
  attacker list is empty or absent adds exactly 2 to the batch's corrections count when its
  severity is one of low, medium, high and critical, and exactly 3 otherwise (the title and
  the attacker list count one each, a missing or unknown severity counts one more).
\<close>

theorem short_title_no_attackers_adds:
  assumes "ev_title e = Some t" and "length t = 8"
    and "ev_attacker_ips e = None \<or> ev_attacker_ips e = Some []"
    and "js_endsWith (toLowerCase (file_name f)) ''.json''"
    and "None \<notin> set before" and "None \<notin> set after"
  shows "json_event_issues e
           = (if ev_severity e \<in> set (map Some [''low'', ''medium'', ''high'', ''critical''])
              then 2 else 3)
       \<and> correctionsCount
           (preValidateFileWithAI (\<lambda>text. Some (JsonArray (before @ Some e # after))) f)
           = correctionsCount (preValidateFileWithAI (\<lambda>text. Some (JsonArray (before @ after))) f)
             + json_event_issues e"
proof -
  have one: "json_event_issues e
           = (if ev_severity e \<in> set (map Some [''low'', ''medium'', ''high'', ''critical''])
              then 2 else 3)"
    using assms(1-3) by (auto simp: json_event_issues_def split: option.splits)
  have two: "correctionsCount (preValidateFileWithAI (\<lambda>text. Some (JsonArray es)) f)
           = sum_list (map (\<lambda>e. json_event_issues (the e)) es)" if "None \<notin> set es" for es
    by (simp add: preValidateFileWithAI_def json_batch_counters [OF assms(4) that]
        assessment_correctionsCount)
  have with_e: "None \<notin> set (before @ Some e # after)"
    using assms(5,6) by simp
  have without_e: "None \<notin> set (before @ after)"
    using assms(5,6) by simp
  show ?thesis
    using one by (simp add: two [OF with_e] two [OF without_e])
qed

theorem short_title_no_attackers_adds_witness:
  "ev_title short_title_event = Some ''abcdefgh'' \<and> length ''abcdefgh'' = 8
   \<and> ev_attacker_ips short_title_event = None
   \<and> js_endsWith (toLowerCase (file_name json_file)) ''.json''
   \<and> json_event_issues short_title_event = 2
   \<and> correctionsCount (preValidateFileWithAI
        (\<lambda>text. Some (JsonArray [Some sound_event, Some short_title_event])) json_file)
     = correctionsCount
         (preValidateFileWithAI (\<lambda>text. Some (JsonArray [Some sound_event])) json_file) + 2"
proof -
  have title: "ev_title short_title_event = Some ''abcdefgh''"
    by (simp add: short_title_event_def)
  have len: "length ''abcdefgh'' = 8"
    by simp
  have ips: "ev_attacker_ips short_title_event = None \<or> ev_attacker_ips short_title_event = Some []"
    by (simp add: short_title_event_def)
  have name: "js_endsWith (toLowerCase (file_name json_file)) ''.json''"
    by code_simp
  have sev: "ev_severity short_title_event \<in> set (map Some [''low'', ''medium'', ''high'', ''critical''])"
    by (simp add: short_title_event_def)
  show ?thesis
    using short_title_no_attackers_adds
      [OF title len ips name, of "[Some sound_event]" "[]"] title name sev
    by (simp add: short_title_event_def)
qed


section \<open>Structural Validator: results\<close>




end
